theory Spec2Isabelle
  imports Complex_Main "HOL-Library.Word" "HOL-Library.Sublist" "HOL-Library.Log_Nat"
begin

section \<open>IEEE 754 binary32, the C++ type float\<close>

text \<open>
  The arithmetic of the source is single precision, evaluated operation by operation
  (no extended precision, no fused or reordered operations).
  Every finite binary32 number is an integer multiple of the smallest subnormal
  \<open>2\<^sup>-\<^sup>1\<^sup>4\<^sup>9\<close>. \<open>Finite s k\<close> is the number with sign bit \<open>s\<close> and magnitude
  \<open>k \<sqdot> 2\<^sup>-\<^sup>1\<^sup>4\<^sup>9\<close>; a number of the format has \<open>k < 2\<^sup>2\<^sup>4\<close> (subnormals and the first
  binade, spacing one unit) or 24 significant bits followed by zeros, and
  \<open>k < 2\<^sup>2\<^sup>7\<^sup>7\<close>. Both zeros are there (\<open>Finite False 0\<close> and \<open>Finite True 0\<close>), the two
  infinities, and one NaN (payloads are not distinguished). Arithmetic is the exact
  result rounded to nearest, ties to even, as the default rounding mode does.
\<close>

datatype float = Finite bool nat | Infinity bool | NaN

text \<open>\<open>N / D\<close> rounded to the nearest natural number, ties to the even one.\<close>

definition NearestEven :: "nat \<Rightarrow> nat \<Rightarrow> nat" where
  "NearestEven N D =
     (if 2 * (N mod D) < D then N div D
      else if D < 2 * (N mod D) then N div D + 1
      else if even (N div D) then N div D else N div D + 1)"

text \<open>
  Neighbouring binary32 numbers with integer part \<open>q\<close> (in units) are \<open>2 ^ Spacing q\<close>
  units apart: one unit below \<open>2\<^sup>2\<^sup>4\<close> units, and 24 significant bits above.
\<close>

definition Spacing :: "nat \<Rightarrow> nat" where
  "Spacing q = nat (bitlen (int q) - 24)"

text \<open>
  The binary32 number nearest to \<open>N / D\<close> units, with sign bit \<open>s\<close>; a result of
  \<open>2\<^sup>2\<^sup>7\<^sup>7\<close> units (\<open>2\<^sup>1\<^sup>2\<^sup>8\<close>) or more overflows to the infinity.
\<close>

definition RoundNearest :: "bool \<Rightarrow> nat \<Rightarrow> nat \<Rightarrow> float" where
  "RoundNearest s N D =
     (let j = Spacing (N div D);
          k = NearestEven N (D * 2 ^ j) * 2 ^ j
      in if k < 2 ^ 277 then Finite s k else Infinity s)"

definition SignedUnits :: "bool \<Rightarrow> nat \<Rightarrow> int" where
  "SignedUnits s k = (if s then - int k else int k)"

fun fadd :: "float \<Rightarrow> float \<Rightarrow> float" where
  "fadd NaN b = NaN"
| "fadd a NaN = NaN"
| "fadd (Infinity s) (Infinity t) = (if s = t then Infinity s else NaN)"
| "fadd (Infinity s) (Finite t l) = Infinity s"
| "fadd (Finite s k) (Infinity t) = Infinity t"
| "fadd (Finite s k) (Finite t l) =
     (if SignedUnits s k + SignedUnits t l = 0 then Finite (s \<and> t) 0
      else RoundNearest (SignedUnits s k + SignedUnits t l < 0)
             (nat \<bar>SignedUnits s k + SignedUnits t l\<bar>) 1)"

fun fmul :: "float \<Rightarrow> float \<Rightarrow> float" where
  "fmul NaN b = NaN"
| "fmul a NaN = NaN"
| "fmul (Infinity s) (Infinity t) = Infinity (s \<noteq> t)"
| "fmul (Infinity s) (Finite t l) = (if l = 0 then NaN else Infinity (s \<noteq> t))"
| "fmul (Finite s k) (Infinity t) = (if k = 0 then NaN else Infinity (s \<noteq> t))"
| "fmul (Finite s k) (Finite t l) = RoundNearest (s \<noteq> t) (k * l) (2 ^ 149)"

fun fdiv :: "float \<Rightarrow> float \<Rightarrow> float" where
  "fdiv NaN b = NaN"
| "fdiv a NaN = NaN"
| "fdiv (Infinity s) (Infinity t) = NaN"
| "fdiv (Infinity s) (Finite t l) = Infinity (s \<noteq> t)"
| "fdiv (Finite s k) (Infinity t) = Finite (s \<noteq> t) 0"
| "fdiv (Finite s k) (Finite t l) =
     (if l = 0 then (if k = 0 then NaN else Infinity (s \<noteq> t))
      else RoundNearest (s \<noteq> t) (k * 2 ^ 149) l)"

text \<open>
  The comparison \<open><\<close>: false when an operand is NaN; the zeros are equal; every finite
  number lies between the infinities.
\<close>

fun Position :: "float \<Rightarrow> int" where
  "Position (Finite s k) = SignedUnits s k"
| "Position (Infinity s) = SignedUnits s (2 ^ 277)"
| "Position NaN = 0"

definition fless :: "float \<Rightarrow> float \<Rightarrow> bool" where
  "fless a b = (a \<noteq> NaN \<and> b \<noteq> NaN \<and> Position a < Position b)"

definition fle :: "float \<Rightarrow> float \<Rightarrow> bool" where
  "fle a b = (a \<noteq> NaN \<and> b \<noteq> NaN \<and> Position a \<le> Position b)"

text \<open>Conversion of a non-negative \<open>int32\<close> to float, and the literals of the source.\<close>

definition FloatOfNat :: "nat \<Rightarrow> float" where
  "FloatOfNat n = RoundNearest False (n * 2 ^ 149) 1"

definition Binary32 :: "nat \<Rightarrow> int \<Rightarrow> float" where
  \<comment> \<open>the positive number \<open>m \<sqdot> 2\<^sup>e\<close>, for \<open>-149 \<le> e\<close>\<close>
  "Binary32 m e = Finite False (m * 2 ^ nat (e + 149))"

definition fzero :: float where "fzero = Finite False 0"

definition fone :: float where "fone = Finite False (2 ^ 149)"

definition INFINITY :: float where "INFINITY = Infinity False"

text \<open>The sign bit is clear, or the value is NaN.\<close>

fun NotNegative :: "float \<Rightarrow> bool" where
  "NotNegative (Finite s k) = (\<not> s)"
| "NotNegative (Infinity s) = (\<not> s)"
| "NotNegative NaN = True"

text \<open>The real number a finite float stands for.\<close>

fun valof :: "float \<Rightarrow> real" where
  "valof (Finite s k) = real_of_int (SignedUnits s k) / 2 ^ 149"
| "valof (Infinity s) = 0"
| "valof NaN = 0"

section \<open>WorldDistanceBlend: data model\<close>

text \<open>Engine objects are identified by their address; a pointer that may be null is an option.\<close>

type_synonym AActor = nat
type_synonym UDistanceBlendComponent = nat

text \<open>\<open>struct FDistanceBlendWeight\<close> and its constructor (DistanceBlendTypes.h).\<close>

record FDistanceBlendWeight =
  Component :: "UDistanceBlendComponent option"
  BlendWeight :: float
  DistanceBias :: float
  Scalar :: float
  Dist :: float

definition FDistanceBlendWeight_ctor :: "UDistanceBlendComponent option \<Rightarrow> FDistanceBlendWeight" where
  "FDistanceBlendWeight_ctor InComponent =
     \<lparr>Component = InComponent, BlendWeight = fzero, DistanceBias = fone, Scalar = fone, Dist = fzero\<rparr>"

text \<open>
  What the subsystem reads from the engine: the global frame counter, which objects
  still exist (what \<open>TWeakObjectPtr::IsValid\<close> consults), actor and camera locations
  (\<open>GetCameraLocation\<close> is \<open>Some\<close> exactly for an \<open>APlayerCameraManager\<close>), the owner of a
  component and its \<open>GetBlendScalar()\<close>. The engine's vector type \<open>FVector\<close> is the type
  parameter \<open>'v\<close>; its subtraction and its lengths \<open>Size()\<close> and \<open>Size2D()\<close>, as the
  float stored in \<open>Dist\<close>, are supplied with it.
\<close>

record 'v World =
  GFrameCounter :: "64 word"
  ObjectAlive :: "AActor \<Rightarrow> bool"
  GetActorLocation :: "AActor \<Rightarrow> 'v"
  GetCameraLocation :: "AActor \<Rightarrow> 'v option"
  GetOwner :: "UDistanceBlendComponent \<Rightarrow> AActor"
  GetBlendScalar :: "UDistanceBlendComponent \<Rightarrow> float"
  VectorMinus :: "'v \<Rightarrow> 'v \<Rightarrow> 'v"
  Size :: "'v \<Rightarrow> float"
  Size2D :: "'v \<Rightarrow> float"

text \<open>
  \<open>class UWorldDistanceBlendSubsystem\<close>. \<open>ComponentBlendWeight\<close> is the field
  \<open>UDistanceBlendComponent::BlendWeight\<close> of every component, which the subsystem writes.
  Registered components are non-null and alive (the source's \<open>checkSlow\<close>).
\<close>

record UWorldDistanceBlendSubsystem =
  BlendComponents :: "UDistanceBlendComponent list"
  LastUpdateFrame :: "64 word"
  BlendTarget :: "AActor option"
  BlendWeights :: "FDistanceBlendWeight list"
  LastValidBlendWeights :: "FDistanceBlendWeight list"
  ComponentBlendWeight :: "UDistanceBlendComponent \<Rightarrow> FDistanceBlendWeight"

definition InitialSubsystem :: UWorldDistanceBlendSubsystem where
  "InitialSubsystem =
     \<lparr>BlendComponents = [], LastUpdateFrame = - 1, BlendTarget = None, BlendWeights = [],
      LastValidBlendWeights = [], ComponentBlendWeight = (\<lambda>c. FDistanceBlendWeight_ctor None)\<rparr>"

section \<open>Operations\<close>

definition ShouldUpdateDistance :: "'v World \<Rightarrow> UWorldDistanceBlendSubsystem \<Rightarrow> bool" where
  "ShouldUpdateDistance w s = (GFrameCounter w \<noteq> LastUpdateFrame s)"

text \<open>\<open>TWeakObjectPtr::IsValid\<close>: the pointer is not null and its object still exists.\<close>

definition IsValid :: "'v World \<Rightarrow> AActor option \<Rightarrow> bool" where
  "IsValid w p = (case p of None \<Rightarrow> False | Some a \<Rightarrow> ObjectAlive w a)"

text \<open>
  The engine's comparison of a pointer with a \<open>TWeakObjectPtr\<close>: equal when they refer
  to the same object, and also when both resolve to null (a null pointer and a pointer
  to a destroyed object are equal).
\<close>

definition WeakObjectPtrEqual :: "'v World \<Rightarrow> AActor option \<Rightarrow> AActor option \<Rightarrow> bool" where
  "WeakObjectPtrEqual w a b = (a = b \<or> (\<not> IsValid w a \<and> \<not> IsValid w b))"

definition AssignBlendTarget ::
  "'v World \<Rightarrow> AActor option \<Rightarrow> UWorldDistanceBlendSubsystem \<Rightarrow> UWorldDistanceBlendSubsystem" where
  "AssignBlendTarget w NewBlendTarget s =
     (if \<not> WeakObjectPtrEqual w NewBlendTarget (BlendTarget s)
      then s\<lparr>BlendWeights := [], LastUpdateFrame := - 1, BlendTarget := NewBlendTarget\<rparr>
      else s\<lparr>BlendTarget := NewBlendTarget\<rparr>)"

text \<open>\<open>TArray::AddUnique\<close> and \<open>TArray::Remove\<close> (which removes every equal element).\<close>

definition AddUnique :: "'a list \<Rightarrow> 'a \<Rightarrow> 'a list" where
  "AddUnique xs x = (if x \<in> set xs then xs else xs @ [x])"

definition Remove :: "'a list \<Rightarrow> 'a \<Rightarrow> 'a list" where
  "Remove xs x = filter (\<lambda>y. y \<noteq> x) xs"

definition RegisterBlendComponent ::
  "UDistanceBlendComponent \<Rightarrow> UWorldDistanceBlendSubsystem \<Rightarrow> UWorldDistanceBlendSubsystem" where
  "RegisterBlendComponent BlendComponent s =
     s\<lparr>BlendComponents := AddUnique (BlendComponents s) BlendComponent\<rparr>"

definition UnregisterBlendComponent ::
  "UDistanceBlendComponent \<Rightarrow> UWorldDistanceBlendSubsystem \<Rightarrow> UWorldDistanceBlendSubsystem" where
  "UnregisterBlendComponent BlendComponent s =
     s\<lparr>BlendComponents := Remove (BlendComponents s) BlendComponent\<rparr>"

definition GetLastValidBlendWeights ::
  "UWorldDistanceBlendSubsystem \<Rightarrow> FDistanceBlendWeight list \<times> bool" where
  "GetLastValidBlendWeights s = (LastValidBlendWeights s, 0 < length (LastValidBlendWeights s))"

subsection \<open>The loops of GetBlendWeights\<close>

text \<open>Body of the first loop: the record cached for one component.\<close>

definition CacheComponent ::
  "'v World \<Rightarrow> bool \<Rightarrow> AActor \<Rightarrow> UDistanceBlendComponent \<Rightarrow> FDistanceBlendWeight" where
  "CacheComponent w bDistanceXY Target Comp =
     (let Owner = GetOwner w Comp;
          TargetLocation = (case GetCameraLocation w Target of
                              Some CameraLocation \<Rightarrow> CameraLocation
                            | None \<Rightarrow> GetActorLocation w Target);
          Diff = VectorMinus w TargetLocation (GetActorLocation w Owner)
      in (FDistanceBlendWeight_ctor (Some Comp))
           \<lparr>Scalar := GetBlendScalar w Comp,
            Dist := (if bDistanceXY then Size2D w Diff else Size w Diff)\<rparr>)"

fun CacheComponents ::
  "'v World \<Rightarrow> bool \<Rightarrow> AActor \<Rightarrow> UDistanceBlendComponent list \<Rightarrow>
   FDistanceBlendWeight list \<times> float \<Rightarrow> FDistanceBlendWeight list \<times> float" where
  "CacheComponents w bDistanceXY Target [] (Weights, TotalDistances) = (Weights, TotalDistances)"
| "CacheComponents w bDistanceXY Target (Comp # Comps) (Weights, TotalDistances) =
     CacheComponents w bDistanceXY Target Comps
       (Weights @ [CacheComponent w bDistanceXY Target Comp],
        fadd TotalDistances (Dist (CacheComponent w bDistanceXY Target Comp)))"

text \<open>Second loop: bias and precursor weight of every record.\<close>

definition ComputeBias :: "float \<Rightarrow> FDistanceBlendWeight \<Rightarrow> FDistanceBlendWeight" where
  "ComputeBias AverageDistances W =
     W\<lparr>DistanceBias := fdiv AverageDistances (Dist W),
       BlendWeight := fmul (fdiv AverageDistances (Dist W)) (Scalar W)\<rparr>"

fun ComputeBiases :: "float \<Rightarrow> FDistanceBlendWeight list \<Rightarrow> FDistanceBlendWeight list" where
  "ComputeBiases AverageDistances [] = []"
| "ComputeBiases AverageDistances (W # Ws) =
     ComputeBias AverageDistances W # ComputeBiases AverageDistances Ws"

text \<open>Third loop: the lowest weight, starting from \<open>INFINITY\<close>.\<close>

fun FindLowest :: "FDistanceBlendWeight list \<Rightarrow> float \<Rightarrow> float" where
  "FindLowest [] Lowest = Lowest"
| "FindLowest (W # Ws) Lowest =
     FindLowest Ws (if fless (BlendWeight W) Lowest then BlendWeight W else Lowest)"

text \<open>Fourth loop: divide by the lowest and sum.\<close>

fun DivideByLowest ::
  "float \<Rightarrow> FDistanceBlendWeight list \<Rightarrow> float \<Rightarrow> FDistanceBlendWeight list \<times> float" where
  "DivideByLowest Lowest [] SumW = ([], SumW)"
| "DivideByLowest Lowest (W # Ws) SumW =
     (case DivideByLowest Lowest Ws (fadd SumW (fdiv (BlendWeight W) Lowest)) of
        (Ws', SumW') \<Rightarrow> (W\<lparr>BlendWeight := fdiv (BlendWeight W) Lowest\<rparr> # Ws', SumW'))"

text \<open>Fifth loop: divide by the sum and write every record into its component.\<close>

definition WriteComponent ::
  "FDistanceBlendWeight \<Rightarrow> (UDistanceBlendComponent \<Rightarrow> FDistanceBlendWeight) \<Rightarrow>
   (UDistanceBlendComponent \<Rightarrow> FDistanceBlendWeight)" where
  "WriteComponent W Store =
     (case Component W of None \<Rightarrow> Store | Some Comp \<Rightarrow> Store(Comp := W))"

fun ScaleToOne ::
  "float \<Rightarrow> FDistanceBlendWeight list \<Rightarrow> (UDistanceBlendComponent \<Rightarrow> FDistanceBlendWeight) \<Rightarrow>
   FDistanceBlendWeight list \<times> (UDistanceBlendComponent \<Rightarrow> FDistanceBlendWeight)" where
  "ScaleToOne SumW [] Store = ([], Store)"
| "ScaleToOne SumW (W # Ws) Store =
     (case ScaleToOne SumW Ws (WriteComponent (W\<lparr>BlendWeight := fdiv (BlendWeight W) SumW\<rparr>) Store) of
        (Ws', Store') \<Rightarrow> (W\<lparr>BlendWeight := fdiv (BlendWeight W) SumW\<rparr> # Ws', Store'))"

subsection \<open>GetBlendWeights\<close>

text \<open>
  The block under \<open>if (ShouldUpdateDistance())\<close>, for a valid target. The result is the
  new subsystem, the returned array and \<open>bValid\<close>.
\<close>

definition ComputeBlendWeights ::
  "'v World \<Rightarrow> bool \<Rightarrow> AActor \<Rightarrow> UWorldDistanceBlendSubsystem \<Rightarrow>
   UWorldDistanceBlendSubsystem \<times> FDistanceBlendWeight list \<times> bool" where
  "ComputeBlendWeights w bDistanceXY Target s =
     (case CacheComponents w bDistanceXY Target (BlendComponents s) ([], fzero) of
        (Weights, TotalDistances) \<Rightarrow>
          if length Weights = 0
          then (s\<lparr>LastUpdateFrame := GFrameCounter w, BlendWeights := Weights\<rparr>, Weights, False)
          else
            (case DivideByLowest
                    (FindLowest (ComputeBiases (fdiv TotalDistances (FloatOfNat (length Weights))) Weights)
                       INFINITY)
                    (ComputeBiases (fdiv TotalDistances (FloatOfNat (length Weights))) Weights) fzero of
               (Rescaled, SumW) \<Rightarrow>
                 (case ScaleToOne SumW Rescaled (ComponentBlendWeight s) of
                    (Final, Store) \<Rightarrow>
                      (if 0 < length Final
                       then s\<lparr>LastUpdateFrame := GFrameCounter w, BlendWeights := Final,
                              LastValidBlendWeights := Final, ComponentBlendWeight := Store\<rparr>
                       else s\<lparr>LastUpdateFrame := GFrameCounter w, BlendWeights := Final,
                              ComponentBlendWeight := Store\<rparr>,
                       Final, 0 < length Final))))"

definition GetBlendWeights ::
  "'v World \<Rightarrow> bool \<Rightarrow> UWorldDistanceBlendSubsystem \<Rightarrow>
   UWorldDistanceBlendSubsystem \<times> FDistanceBlendWeight list \<times> bool" where
  "GetBlendWeights w bDistanceXY s =
     (if \<not> IsValid w (BlendTarget s) then (s, BlendWeights s, False)
      else if ShouldUpdateDistance w s then
        (case BlendTarget s of
           Some Target \<Rightarrow> ComputeBlendWeights w bDistanceXY Target s
         | None \<Rightarrow> (s, BlendWeights s, False))
      else (s, BlendWeights s, 0 < length (BlendWeights s)))"

subsection \<open>Sequences of calls\<close>

text \<open>
  The public interface as a datatype of calls; every call may see a different state of
  the engine. \<open>GetLastValidBlendWeights\<close> is a \<open>const\<close> accessor and leaves the
  subsystem as it is.
\<close>

datatype Call =
    CallAssignBlendTarget "AActor option"
  | CallRegisterBlendComponent UDistanceBlendComponent
  | CallUnregisterBlendComponent UDistanceBlendComponent
  | CallGetBlendWeights bool
  | CallGetLastValidBlendWeights

fun Perform :: "'v World \<Rightarrow> Call \<Rightarrow> UWorldDistanceBlendSubsystem \<Rightarrow> UWorldDistanceBlendSubsystem" where
  "Perform w (CallAssignBlendTarget NewBlendTarget) s = AssignBlendTarget w NewBlendTarget s"
| "Perform w (CallRegisterBlendComponent BlendComponent) s = RegisterBlendComponent BlendComponent s"
| "Perform w (CallUnregisterBlendComponent BlendComponent) s = UnregisterBlendComponent BlendComponent s"
| "Perform w (CallGetBlendWeights bDistanceXY) s = fst (GetBlendWeights w bDistanceXY s)"
| "Perform w CallGetLastValidBlendWeights s = s"

fun PerformAll ::
  "('v World \<times> Call) list \<Rightarrow> UWorldDistanceBlendSubsystem \<Rightarrow> UWorldDistanceBlendSubsystem" where
  "PerformAll [] s = s"
| "PerformAll ((w, c) # cs) s = PerformAll cs (Perform w c s)"

text \<open>Repeated calls of \<open>GetBlendWeights\<close>, each with its flag and the engine state it sees.\<close>

fun RepeatGetBlendWeights ::
  "('v World \<times> bool) list \<Rightarrow> UWorldDistanceBlendSubsystem \<Rightarrow> UWorldDistanceBlendSubsystem" where
  "RepeatGetBlendWeights [] s = s"
| "RepeatGetBlendWeights ((w, bDistanceXY) # rest) s =
     RepeatGetBlendWeights rest (fst (GetBlendWeights w bDistanceXY s))"

section \<open>Example scenes\<close>

text \<open>
  A scene on a line, so that a vector is an integer and its length the absolute value.
  Frame 5; actor \<open>a\<close> stands at \<open>10 a\<close>, so the target, actor 0, is at the origin and the
  owners of components 1, 2 and 3 are at distances 10, 20 and 30; no actor is a camera
  manager; every scalar is 1.
\<close>

definition ExampleWorld :: "int World" where
  "ExampleWorld =
     \<lparr>GFrameCounter = 5, ObjectAlive = (\<lambda>a. True),
      GetActorLocation = (\<lambda>a. 10 * int a),
      GetCameraLocation = (\<lambda>a. None), GetOwner = (\<lambda>c. c), GetBlendScalar = (\<lambda>c. fone),
      VectorMinus = (\<lambda>a b. a - b),
      Size = (\<lambda>v. FloatOfNat (nat \<bar>v\<bar>)), Size2D = (\<lambda>v. FloatOfNat (nat \<bar>v\<bar>))\<rparr>"

definition ExampleSubsystem :: UWorldDistanceBlendSubsystem where
  "ExampleSubsystem =
     AssignBlendTarget ExampleWorld (Some 0)
       (RegisterBlendComponent 3 (RegisterBlendComponent 2 (RegisterBlendComponent 1 InitialSubsystem)))"

text \<open>The stages of the computation in this scene, as \<open>ComputeBlendWeights\<close> chains them.\<close>

definition ExampleCached :: "FDistanceBlendWeight list \<times> float" where
  "ExampleCached = CacheComponents ExampleWorld True 0 (BlendComponents ExampleSubsystem) ([], fzero)"

definition ExampleAverage :: float where
  "ExampleAverage = fdiv (snd ExampleCached) (FloatOfNat (length (fst ExampleCached)))"

definition ExampleBiased :: "FDistanceBlendWeight list" where
  "ExampleBiased = ComputeBiases ExampleAverage (fst ExampleCached)"

definition ExampleLowest :: float where
  "ExampleLowest = FindLowest ExampleBiased INFINITY"

definition ExampleRescaled :: "FDistanceBlendWeight list \<times> float" where
  "ExampleRescaled = DivideByLowest ExampleLowest ExampleBiased fzero"

definition ExampleFinal :: "FDistanceBlendWeight list" where
  "ExampleFinal =
     fst (ScaleToOne (snd ExampleRescaled) (fst ExampleRescaled) (ComponentBlendWeight ExampleSubsystem))"

text \<open>The subsystem after its first query in frame 5.\<close>

definition ComputedSubsystem :: UWorldDistanceBlendSubsystem where
  "ComputedSubsystem = fst (GetBlendWeights ExampleWorld True ExampleSubsystem)"

text \<open>One frame later the target actor has been destroyed.\<close>

definition DestroyedTargetWorld :: "int World" where
  "DestroyedTargetWorld = ExampleWorld\<lparr>GFrameCounter := 6, ObjectAlive := (\<lambda>a. False)\<rparr>"

text \<open>Every owner at distance 10 from the target; component \<open>c\<close> has scalar \<open>c\<close>.\<close>

definition EqualDistanceWorld :: "int World" where
  "EqualDistanceWorld =
     ExampleWorld\<lparr>GetActorLocation := (\<lambda>a. if a = 0 then 0 else 10),
                  GetBlendScalar := (\<lambda>c. FloatOfNat c)\<rparr>"

text \<open>The same places; component 1 has scalar 1, the others -1.\<close>

definition NegativeScalarWorld :: "int World" where
  "NegativeScalarWorld =
     EqualDistanceWorld\<lparr>GetBlendScalar := (\<lambda>c. if c = 1 then fone else Finite True (2 ^ 149))\<rparr>"

text \<open>The first scene with every scalar \<open>1.75 \<sqdot> 2\<^sup>1\<^sup>2\<^sup>7\<close>, about \<open>2.98e38\<close>.\<close>

definition HugeScalarWorld :: "int World" where
  "HugeScalarWorld = ExampleWorld\<lparr>GetBlendScalar := (\<lambda>c. Binary32 14680064 104)\<rparr>"

text \<open>The owners of components 1, 2 and 3 at distances 16777214, 16777215 and 1.\<close>

definition TieWorld :: "int World" where
  "TieWorld =
     ExampleWorld\<lparr>GetActorLocation :=
       (\<lambda>a. if a = 1 then 16777214 else if a = 2 then 16777215 else if a = 3 then 1 else 0)\<rparr>"

text \<open>Five components, at distances 10, 20, 30, 40 and 50 in the first scene.\<close>

definition FiveSubsystem :: UWorldDistanceBlendSubsystem where
  "FiveSubsystem = RegisterBlendComponent 5 (RegisterBlendComponent 4 ExampleSubsystem)"

text \<open>A subsystem whose stored target is null while its weight array holds a record.\<close>

definition NullTargetSubsystem :: UWorldDistanceBlendSubsystem where
  "NullTargetSubsystem = InitialSubsystem\<lparr>BlendWeights := [FDistanceBlendWeight_ctor (Some 1)]\<rparr>"

text \<open>Frame 6 of the same scene, and the subsystem once all three components have unregistered.\<close>

definition NextFrameWorld :: "int World" where
  "NextFrameWorld = ExampleWorld\<lparr>GFrameCounter := 6\<rparr>"

definition EmptiedSubsystem :: UWorldDistanceBlendSubsystem where
  "EmptiedSubsystem =
     UnregisterBlendComponent 3 (UnregisterBlendComponent 2 (UnregisterBlendComponent 1 ComputedSubsystem))"

section \<open>The loops in closed form\<close>

lemma CacheComponents_eq:
  "CacheComponents w xy T Comps (Ws, t) =
     (Ws @ map (CacheComponent w xy T) Comps,
      foldl fadd t (map (\<lambda>c. Dist (CacheComponent w xy T c)) Comps))"
  by (induction Comps arbitrary: Ws t) simp_all

lemma ComputeBiases_map: "ComputeBiases a Ws = map (ComputeBias a) Ws"
  by (induction Ws) simp_all

lemma DivideByLowest_eq:
  "DivideByLowest lo Ws acc =
     (map (\<lambda>W. W\<lparr>BlendWeight := fdiv (BlendWeight W) lo\<rparr>) Ws,
      foldl fadd acc (map (\<lambda>W. fdiv (BlendWeight W) lo) Ws))"
  by (induction Ws arbitrary: acc) simp_all

lemma ScaleToOne_fst:
  "fst (ScaleToOne S Ws st) = map (\<lambda>W. W\<lparr>BlendWeight := fdiv (BlendWeight W) S\<rparr>) Ws"
proof (induction Ws arbitrary: st)
  case Nil
  show ?case by simp
next
  case (Cons W Ws)
  obtain Ws' st' where r:
    "ScaleToOne S Ws (WriteComponent (W\<lparr>BlendWeight := fdiv (BlendWeight W) S\<rparr>) st) = (Ws', st')"
    by (cases "ScaleToOne S Ws (WriteComponent (W\<lparr>BlendWeight := fdiv (BlendWeight W) S\<rparr>) st)")
  from Cons.IH [of "WriteComponent (W\<lparr>BlendWeight := fdiv (BlendWeight W) S\<rparr>) st"] r
  have "Ws' = map (\<lambda>W. W\<lparr>BlendWeight := fdiv (BlendWeight W) S\<rparr>) Ws" by simp
  with r show ?case by simp
qed

lemma ComputeBlendWeights_empty:
  assumes "BlendComponents s = []"
  shows "ComputeBlendWeights w xy T s =
           (s\<lparr>LastUpdateFrame := GFrameCounter w, BlendWeights := []\<rparr>, [], False)"
  using assms by (simp add: ComputeBlendWeights_def)

text \<open>
  The final weight of a component is
  \<open>((AverageDistances / Dist) * Scalar / Lowest) / Sum\<close>, every operation rounded.
\<close>

lemma ComputeBlendWeights_shape:
  assumes ne: "BlendComponents s \<noteq> []"
    and avg_def: "avg = fdiv (foldl fadd fzero (map (\<lambda>c. Dist (CacheComponent w xy T c)) (BlendComponents s)))
                          (FloatOfNat (length (BlendComponents s)))"
    and lo_def: "lo = FindLowest (map (\<lambda>c. ComputeBias avg (CacheComponent w xy T c)) (BlendComponents s))
                        INFINITY"
    and S_def: "S = foldl fadd fzero
                      (map (\<lambda>c. fdiv (BlendWeight (ComputeBias avg (CacheComponent w xy T c))) lo)
                         (BlendComponents s))"
    and Final_def: "Final = map (\<lambda>c. (ComputeBias avg (CacheComponent w xy T c))
                 \<lparr>BlendWeight := fdiv (fdiv (BlendWeight (ComputeBias avg (CacheComponent w xy T c))) lo) S\<rparr>)
               (BlendComponents s)"
  shows "\<exists>Store. ComputeBlendWeights w xy T s =
           (s\<lparr>LastUpdateFrame := GFrameCounter w, BlendWeights := Final,
              LastValidBlendWeights := Final, ComponentBlendWeight := Store\<rparr>, Final, True)"
proof -
  define Ws where "Ws = map (CacheComponent w xy T) (BlendComponents s)"
  define tot where "tot = foldl fadd fzero (map (\<lambda>c. Dist (CacheComponent w xy T c)) (BlendComponents s))"
  define B where "B = map (ComputeBias avg) Ws"
  define R where "R = map (\<lambda>W. W\<lparr>BlendWeight := fdiv (BlendWeight W) lo\<rparr>) B"
  have Ws_ne: "length Ws \<noteq> 0" using ne by (simp add: Ws_def)
  have len: "length Ws = length (BlendComponents s)" by (simp add: Ws_def)
  have cc: "CacheComponents w xy T (BlendComponents s) ([], fzero) = (Ws, tot)"
    by (simp add: CacheComponents_eq Ws_def tot_def)
  have avg': "fdiv tot (FloatOfNat (length Ws)) = avg"
    by (simp only: avg_def tot_def len)
  have cb: "ComputeBiases avg Ws = B"
    by (simp add: ComputeBiases_map B_def)
  have lo': "FindLowest B INFINITY = lo"
    by (simp add: lo_def B_def Ws_def comp_def)
  have S': "foldl fadd fzero (map (\<lambda>W. fdiv (BlendWeight W) lo) B) = S"
    by (simp add: S_def B_def Ws_def comp_def)
  have dl: "DivideByLowest lo B fzero = (R, S)"
    by (simp add: DivideByLowest_eq R_def S')
  obtain F Store where sc: "ScaleToOne S R (ComponentBlendWeight s) = (F, Store)"
    by (cases "ScaleToOne S R (ComponentBlendWeight s)")
  have "F = fst (ScaleToOne S R (ComponentBlendWeight s))" using sc by simp
  also have "\<dots> = map (\<lambda>W. W\<lparr>BlendWeight := fdiv (BlendWeight W) S\<rparr>) R"
    by (rule ScaleToOne_fst)
  also have "\<dots> = Final" by (simp add: Final_def R_def B_def Ws_def comp_def)
  finally have F: "F = Final" .
  have lenF: "0 < length Final" using ne by (simp add: Final_def)
  have "ComputeBlendWeights w xy T s =
           (s\<lparr>LastUpdateFrame := GFrameCounter w, BlendWeights := Final,
              LastValidBlendWeights := Final, ComponentBlendWeight := Store\<rparr>, Final, True)"
    unfolding ComputeBlendWeights_def cc prod.case avg' cb lo' dl sc F
    using Ws_ne lenF by simp
  then show ?thesis by blast
qed

lemma Scalar_CacheComponent [simp]: "Scalar (CacheComponent w xy T c) = GetBlendScalar w c"
  by (simp add: CacheComponent_def FDistanceBlendWeight_ctor_def Let_def)

lemma Component_CacheComponent [simp]: "Component (CacheComponent w xy T c) = Some c"
  by (simp add: CacheComponent_def FDistanceBlendWeight_ctor_def Let_def)

section \<open>The effect of GetBlendWeights\<close>

lemma GetBlendWeights_invalid:
  "\<not> IsValid w (BlendTarget s) \<Longrightarrow> GetBlendWeights w xy s = (s, BlendWeights s, False)"
  by (simp add: GetBlendWeights_def)

lemma GetBlendWeights_cached:
  "IsValid w (BlendTarget s) \<Longrightarrow> \<not> ShouldUpdateDistance w s \<Longrightarrow>
   GetBlendWeights w xy s = (s, BlendWeights s, 0 < length (BlendWeights s))"
  by (simp add: GetBlendWeights_def)

lemma GetBlendWeights_compute:
  "BlendTarget s = Some T \<Longrightarrow> ObjectAlive w T \<Longrightarrow> ShouldUpdateDistance w s \<Longrightarrow>
   GetBlendWeights w xy s = ComputeBlendWeights w xy T s"
  by (simp add: GetBlendWeights_def IsValid_def)

lemma ComputeBlendWeights_nonempty:
  assumes ne: "BlendComponents s \<noteq> []"
  shows "\<exists>Final Store. map Component Final = map Some (BlendComponents s) \<and>
           ComputeBlendWeights w xy T s =
             (s\<lparr>LastUpdateFrame := GFrameCounter w, BlendWeights := Final,
                LastValidBlendWeights := Final, ComponentBlendWeight := Store\<rparr>, Final, True)"
proof -
  define avg where "avg = fdiv (foldl fadd fzero (map (\<lambda>c. Dist (CacheComponent w xy T c)) (BlendComponents s)))
                          (FloatOfNat (length (BlendComponents s)))"
  define lo where "lo = FindLowest (map (\<lambda>c. ComputeBias avg (CacheComponent w xy T c)) (BlendComponents s))
                        INFINITY"
  define S where "S = foldl fadd fzero
                      (map (\<lambda>c. fdiv (BlendWeight (ComputeBias avg (CacheComponent w xy T c))) lo)
                         (BlendComponents s))"
  define F where "F = map (\<lambda>c. (ComputeBias avg (CacheComponent w xy T c))
                 \<lparr>BlendWeight := fdiv (fdiv (BlendWeight (ComputeBias avg (CacheComponent w xy T c))) lo) S\<rparr>)
               (BlendComponents s)"
  have "map Component F = map Some (BlendComponents s)"
    by (simp add: F_def comp_def ComputeBias_def)
  with ComputeBlendWeights_shape [OF ne avg_def lo_def S_def F_def] show ?thesis by blast
qed

text \<open>
  What a call of \<open>GetBlendWeights\<close> can do to the subsystem: nothing, or stamp the frame
  and replace the weights.
\<close>

lemma GetBlendWeights_effect:
  "GetBlendWeights w xy s = (s, BlendWeights s, IsValid w (BlendTarget s) \<and> 0 < length (BlendWeights s))
     \<and> (\<not> IsValid w (BlendTarget s) \<or> \<not> ShouldUpdateDistance w s)
   \<or> IsValid w (BlendTarget s) \<and> ShouldUpdateDistance w s \<and> BlendComponents s = [] \<and>
     GetBlendWeights w xy s = (s\<lparr>LastUpdateFrame := GFrameCounter w, BlendWeights := []\<rparr>, [], False)
   \<or> IsValid w (BlendTarget s) \<and> ShouldUpdateDistance w s \<and> BlendComponents s \<noteq> [] \<and>
     (\<exists>Final Store. map Component Final = map Some (BlendComponents s) \<and>
        GetBlendWeights w xy s =
          (s\<lparr>LastUpdateFrame := GFrameCounter w, BlendWeights := Final,
             LastValidBlendWeights := Final, ComponentBlendWeight := Store\<rparr>, Final, True))"
proof (cases "IsValid w (BlendTarget s)")
  case False
  then show ?thesis by (simp add: GetBlendWeights_invalid)
next
  case True
  then obtain T where T: "BlendTarget s = Some T" "ObjectAlive w T"
    by (auto simp: IsValid_def split: option.splits)
  show ?thesis
  proof (cases "ShouldUpdateDistance w s")
    case False
    with True show ?thesis by (simp add: GetBlendWeights_cached)
  next
    case upd: True
    show ?thesis
    proof (cases "BlendComponents s = []")
      case True
      with upd T \<open>IsValid w (BlendTarget s)\<close> show ?thesis
        by (simp add: GetBlendWeights_compute ComputeBlendWeights_empty)
    next
      case False
      from ComputeBlendWeights_nonempty [OF False, of w xy T]
      show ?thesis
        using upd T \<open>IsValid w (BlendTarget s)\<close> False
        by (simp add: GetBlendWeights_compute)
    qed
  qed
qed

section \<open>The example scenes evaluated\<close>

text \<open>Evaluation of float operations on numerals.\<close>

lemma bitlen_div_power: "2 ^ k \<le> x \<Longrightarrow> bitlen x = bitlen (x div 2 ^ k) + int k"
proof (induction k arbitrary: x)
  case 0
  then show ?case by simp
next
  case (Suc k)
  then have x: "0 < x" by (smt (verit) zero_less_power)
  from Suc.prems have "2 ^ k \<le> x div 2" by simp
  then have "bitlen (x div 2) = bitlen (x div 2 div 2 ^ k) + int k" by (rule Suc.IH)
  moreover have "x div 2 div 2 ^ k = x div 2 ^ Suc k"
    by (simp add: zdiv_zmult2_eq)
  moreover have "bitlen x = bitlen (x div 2) + 1"
    using x by (subst compute_bitlen) simp
  ultimately show ?case by simp
qed

lemma bitlen_eval:
  "bitlen x =
     (if 2 ^ 64 \<le> x then bitlen (x div 2 ^ 64) + 64
      else if 2 ^ 8 \<le> x then bitlen (x div 2 ^ 8) + 8
      else if 0 < x then bitlen (x div 2) + 1 else 0)"
proof -
  have "bitlen x = (if 0 < x then bitlen (x div 2) + 1 else 0)" by (rule compute_bitlen)
  then show ?thesis
    using bitlen_div_power [of 64 x] bitlen_div_power [of 8 x] by simp
qed

lemmas float_eval = FloatOfNat_def RoundNearest_def Spacing_def NearestEven_def Binary32_def
  bitlen_eval fzero_def fone_def INFINITY_def SignedUnits_def fless_def

lemma ExampleWorld_fields:
  "GFrameCounter ExampleWorld = 5"
  "ObjectAlive ExampleWorld a"
  "GetOwner ExampleWorld c = c"
  "GetBlendScalar ExampleWorld c = fone"
  by (simp_all add: ExampleWorld_def)

lemma EqualDistanceWorld_fields:
  "GFrameCounter EqualDistanceWorld = 5"
  "ObjectAlive EqualDistanceWorld a"
  "GetOwner EqualDistanceWorld c = c"
  "GetBlendScalar EqualDistanceWorld c = FloatOfNat c"
  by (simp_all add: EqualDistanceWorld_def ExampleWorld_def)

lemma ExampleSubsystem_fields:
  "BlendComponents ExampleSubsystem = [1, 2, 3]"
  "BlendTarget ExampleSubsystem = Some 0"
  "LastUpdateFrame ExampleSubsystem = - 1"
  "BlendWeights ExampleSubsystem = []"
  "LastValidBlendWeights ExampleSubsystem = []"
  by (simp_all add: ExampleSubsystem_def AssignBlendTarget_def RegisterBlendComponent_def
      InitialSubsystem_def AddUnique_def)

lemma Example_CacheComponent:
  "CacheComponent ExampleWorld True 0 c =
     \<lparr>Component = Some c, BlendWeight = fzero, DistanceBias = fone, Scalar = fone,
      Dist = FloatOfNat (10 * c)\<rparr>"
  by (simp add: CacheComponent_def ExampleWorld_def FDistanceBlendWeight_ctor_def nat_mult_distrib)

lemma ExampleCached_eq:
  "ExampleCached =
     ([\<lparr>Component = Some 1, BlendWeight = fzero, DistanceBias = fone, Scalar = fone, Dist = Binary32 10 0\<rparr>,
       \<lparr>Component = Some 2, BlendWeight = fzero, DistanceBias = fone, Scalar = fone, Dist = Binary32 20 0\<rparr>,
       \<lparr>Component = Some 3, BlendWeight = fzero, DistanceBias = fone, Scalar = fone, Dist = Binary32 30 0\<rparr>],
      Binary32 60 0)"
  by (simp add: ExampleCached_def ExampleSubsystem_fields Example_CacheComponent float_eval)

lemma ExampleAverage_eq: "ExampleAverage = Binary32 20 0"
  by (simp add: ExampleAverage_def ExampleCached_eq float_eval)

lemma ExampleBiased_eq:
  "ExampleBiased =
     [\<lparr>Component = Some 1, BlendWeight = Binary32 2 0, DistanceBias = Binary32 2 0, Scalar = fone,
       Dist = Binary32 10 0\<rparr>,
      \<lparr>Component = Some 2, BlendWeight = fone, DistanceBias = fone, Scalar = fone, Dist = Binary32 20 0\<rparr>,
      \<lparr>Component = Some 3, BlendWeight = Binary32 11184811 (-24), DistanceBias = Binary32 11184811 (-24),
       Scalar = fone, Dist = Binary32 30 0\<rparr>]"
  by (simp add: ExampleBiased_def ExampleAverage_eq ExampleCached_eq ComputeBias_def float_eval)

lemma ExampleLowest_eq: "ExampleLowest = Binary32 11184811 (-24)"
  by (simp add: ExampleLowest_def ExampleBiased_eq float_eval)

lemma ExampleRescaled_eq:
  "ExampleRescaled =
     ([\<lparr>Component = Some 1, BlendWeight = Binary32 3 0, DistanceBias = Binary32 2 0, Scalar = fone,
        Dist = Binary32 10 0\<rparr>,
       \<lparr>Component = Some 2, BlendWeight = Binary32 3 (-1), DistanceBias = fone, Scalar = fone,
        Dist = Binary32 20 0\<rparr>,
       \<lparr>Component = Some 3, BlendWeight = fone, DistanceBias = Binary32 11184811 (-24),
        Scalar = fone, Dist = Binary32 30 0\<rparr>], Binary32 11 (-1))"
  by (simp add: ExampleRescaled_def ExampleLowest_eq ExampleBiased_eq float_eval)

lemma ExampleFinal_eq:
  "ExampleFinal =
     [\<lparr>Component = Some 1, BlendWeight = Binary32 9151209 (-24), DistanceBias = Binary32 2 0,
       Scalar = fone, Dist = Binary32 10 0\<rparr>,
      \<lparr>Component = Some 2, BlendWeight = Binary32 9151209 (-25), DistanceBias = fone, Scalar = fone,
       Dist = Binary32 20 0\<rparr>,
      \<lparr>Component = Some 3, BlendWeight = Binary32 12201612 (-26), DistanceBias = Binary32 11184811 (-24),
       Scalar = fone, Dist = Binary32 30 0\<rparr>]"
  by (simp add: ExampleFinal_def ExampleRescaled_eq float_eval)

lemma Example_GetBlendWeights:
  "fst (snd (GetBlendWeights ExampleWorld True ExampleSubsystem)) = ExampleFinal"
  "snd (snd (GetBlendWeights ExampleWorld True ExampleSubsystem))"
  "BlendWeights (fst (GetBlendWeights ExampleWorld True ExampleSubsystem)) = ExampleFinal"
  "LastValidBlendWeights (fst (GetBlendWeights ExampleWorld True ExampleSubsystem)) = ExampleFinal"
  "LastUpdateFrame (fst (GetBlendWeights ExampleWorld True ExampleSubsystem)) = 5"
  "BlendComponents (fst (GetBlendWeights ExampleWorld True ExampleSubsystem)) = [1, 2, 3]"
  "BlendTarget (fst (GetBlendWeights ExampleWorld True ExampleSubsystem)) = Some 0"
proof -
  have g: "GetBlendWeights ExampleWorld True ExampleSubsystem
             = ComputeBlendWeights ExampleWorld True 0 ExampleSubsystem"
    by (rule GetBlendWeights_compute)
      (simp_all add: ExampleSubsystem_fields ExampleWorld_fields ShouldUpdateDistance_def)
  have l: "length (fst ExampleCached) \<noteq> 0" "0 < length ExampleFinal"
    by (simp_all add: ExampleCached_eq ExampleFinal_eq)
  have c: "ComputeBlendWeights ExampleWorld True 0 ExampleSubsystem =
             (ExampleSubsystem\<lparr>LastUpdateFrame := GFrameCounter ExampleWorld, BlendWeights := ExampleFinal,
                LastValidBlendWeights := ExampleFinal,
                ComponentBlendWeight :=
                  snd (ScaleToOne (snd ExampleRescaled) (fst ExampleRescaled)
                         (ComponentBlendWeight ExampleSubsystem))\<rparr>, ExampleFinal, True)"
    unfolding ComputeBlendWeights_def ExampleCached_def [symmetric] case_prod_beta
      ExampleAverage_def [symmetric] ExampleBiased_def [symmetric] ExampleLowest_def [symmetric]
      ExampleRescaled_def [symmetric] ExampleFinal_def [symmetric]
    using l by simp
  show "fst (snd (GetBlendWeights ExampleWorld True ExampleSubsystem)) = ExampleFinal"
    "snd (snd (GetBlendWeights ExampleWorld True ExampleSubsystem))"
    "BlendWeights (fst (GetBlendWeights ExampleWorld True ExampleSubsystem)) = ExampleFinal"
    "LastValidBlendWeights (fst (GetBlendWeights ExampleWorld True ExampleSubsystem)) = ExampleFinal"
    "LastUpdateFrame (fst (GetBlendWeights ExampleWorld True ExampleSubsystem)) = 5"
    "BlendComponents (fst (GetBlendWeights ExampleWorld True ExampleSubsystem)) = [1, 2, 3]"
    "BlendTarget (fst (GetBlendWeights ExampleWorld True ExampleSubsystem)) = Some 0"
    by (simp_all add: g c ExampleWorld_fields ExampleSubsystem_fields)
qed

lemma ComputedSubsystem_fields:
  "BlendComponents ComputedSubsystem = [1, 2, 3]"
  "BlendTarget ComputedSubsystem = Some 0"
  "LastUpdateFrame ComputedSubsystem = 5"
  "BlendWeights ComputedSubsystem = ExampleFinal"
  "LastValidBlendWeights ComputedSubsystem = ExampleFinal"
  by (simp_all add: ComputedSubsystem_def Example_GetBlendWeights)

lemma ExampleFinal_length: "length ExampleFinal = 3"
  by (simp add: ExampleFinal_eq)

lemma DestroyedTargetWorld_fields:
  "GFrameCounter DestroyedTargetWorld = 6"
  "\<not> ObjectAlive DestroyedTargetWorld a"
  by (simp_all add: DestroyedTargetWorld_def ExampleWorld_def)

lemma NextFrameWorld_fields:
  "GFrameCounter NextFrameWorld = 6"
  "ObjectAlive NextFrameWorld a"
  by (simp_all add: NextFrameWorld_def ExampleWorld_def)

lemma EmptiedSubsystem_fields:
  "BlendComponents EmptiedSubsystem = []"
  "BlendTarget EmptiedSubsystem = Some 0"
  "LastUpdateFrame EmptiedSubsystem = 5"
  "BlendWeights EmptiedSubsystem = BlendWeights ComputedSubsystem"
  "LastValidBlendWeights EmptiedSubsystem = LastValidBlendWeights ComputedSubsystem"
  by (simp_all add: EmptiedSubsystem_def UnregisterBlendComponent_def Remove_def ComputedSubsystem_fields)

section \<open>Signs\<close>

lemma NotNegative_RoundNearest: "NotNegative (RoundNearest False N D)"
  by (simp add: RoundNearest_def Let_def)

lemma NotNegative_fadd: "NotNegative a \<Longrightarrow> NotNegative b \<Longrightarrow> NotNegative (fadd a b)"
  by (cases a; cases b) (auto simp: SignedUnits_def NotNegative_RoundNearest)

lemma NotNegative_fmul: "NotNegative a \<Longrightarrow> NotNegative b \<Longrightarrow> NotNegative (fmul a b)"
  by (cases a; cases b) (auto simp: NotNegative_RoundNearest)

lemma NotNegative_fdiv: "NotNegative a \<Longrightarrow> NotNegative b \<Longrightarrow> NotNegative (fdiv a b)"
  by (cases a; cases b) (auto simp: NotNegative_RoundNearest)

lemma NotNegative_FloatOfNat: "NotNegative (FloatOfNat n)"
  by (simp add: FloatOfNat_def NotNegative_RoundNearest)

lemma NotNegative_positive: "fless fzero a \<Longrightarrow> NotNegative a"
  by (cases a) (auto simp: fless_def fzero_def SignedUnits_def split: if_splits)

lemma NotNegative_foldl_fadd:
  "NotNegative acc \<Longrightarrow> \<forall>x \<in> set xs. NotNegative x \<Longrightarrow> NotNegative (foldl fadd acc xs)"
  by (induction xs arbitrary: acc) (simp_all add: NotNegative_fadd)

lemma NotNegative_FindLowest:
  "NotNegative lo \<Longrightarrow> \<forall>W \<in> set Ws. NotNegative (BlendWeight W) \<Longrightarrow> NotNegative (FindLowest Ws lo)"
  by (induction Ws arbitrary: lo) simp_all

lemma NotNegative_fle: "NotNegative a \<Longrightarrow> a = NaN \<or> fle fzero a"
  by (cases a) (auto simp: fle_def fzero_def SignedUnits_def)

lemma NotNegative_fzero: "NotNegative fzero" and NotNegative_INFINITY: "NotNegative INFINITY"
  by (simp_all add: fzero_def INFINITY_def)

text \<open>With positive distances and scalars no intermediate value has its sign bit set.\<close>

lemma GetBlendWeights_NotNegative:
  assumes T: "BlendTarget s = Some T" "ObjectAlive w T"
    and upd: "ShouldUpdateDistance w s"
    and pos: "\<forall>c \<in> set (BlendComponents s).
                fless fzero (GetBlendScalar w c) \<and> fless fzero (Dist (CacheComponent w xy T c))"
    and W: "W \<in> set (fst (snd (GetBlendWeights w xy s)))"
  shows "NotNegative (BlendWeight W)"
proof (cases "BlendComponents s = []")
  case True
  then have "GetBlendWeights w xy s =
               (s\<lparr>LastUpdateFrame := GFrameCounter w, BlendWeights := []\<rparr>, [], False)"
    using T upd by (simp add: GetBlendWeights_compute ComputeBlendWeights_empty)
  with W show ?thesis by simp
next
  case False
  let ?d = "\<lambda>c. Dist (CacheComponent w xy T c)"
  define avg where "avg = fdiv (foldl fadd fzero (map ?d (BlendComponents s)))
                          (FloatOfNat (length (BlendComponents s)))"
  define lo where "lo = FindLowest (map (\<lambda>c. ComputeBias avg (CacheComponent w xy T c)) (BlendComponents s))
                        INFINITY"
  define S where "S = foldl fadd fzero
                      (map (\<lambda>c. fdiv (BlendWeight (ComputeBias avg (CacheComponent w xy T c))) lo)
                         (BlendComponents s))"
  define F where "F = map (\<lambda>c. (ComputeBias avg (CacheComponent w xy T c))
                 \<lparr>BlendWeight := fdiv (fdiv (BlendWeight (ComputeBias avg (CacheComponent w xy T c))) lo) S\<rparr>)
               (BlendComponents s)"
  from ComputeBlendWeights_shape [OF False avg_def lo_def S_def F_def]
  have g: "fst (snd (GetBlendWeights w xy s)) = F"
    using T upd by (auto simp: GetBlendWeights_compute)
  have d: "NotNegative (?d c)" and sc: "NotNegative (GetBlendScalar w c)"
    if "c \<in> set (BlendComponents s)" for c
    using pos that by (auto intro: NotNegative_positive)
  have "NotNegative (foldl fadd fzero (map ?d (BlendComponents s)))"
    by (rule NotNegative_foldl_fadd) (auto simp: NotNegative_fzero d)
  then have avg: "NotNegative avg"
    by (simp add: avg_def NotNegative_fdiv NotNegative_FloatOfNat)
  have raw: "NotNegative (BlendWeight (ComputeBias avg (CacheComponent w xy T c)))"
    if "c \<in> set (BlendComponents s)" for c
    using that by (simp add: ComputeBias_def NotNegative_fmul NotNegative_fdiv avg d sc)
  have lo: "NotNegative lo"
    unfolding lo_def by (rule NotNegative_FindLowest) (auto simp: NotNegative_INFINITY raw)
  have "NotNegative S"
    unfolding S_def
    by (rule NotNegative_foldl_fadd) (auto simp: NotNegative_fzero NotNegative_fdiv raw lo)
  then have "NotNegative (fdiv (fdiv (BlendWeight (ComputeBias avg (CacheComponent w xy T c))) lo) S)"
    if "c \<in> set (BlendComponents s)" for c
    using that by (simp add: NotNegative_fdiv raw lo)
  with W show ?thesis
    by (auto simp: g F_def)
qed

lemma FiveSubsystem_fields:
  "BlendComponents FiveSubsystem = [1, 2, 3, 4, 5]"
  "BlendTarget FiveSubsystem = Some 0"
  "LastUpdateFrame FiveSubsystem = - 1"
  "BlendWeights FiveSubsystem = []"
  by (simp_all add: FiveSubsystem_def RegisterBlendComponent_def AddUnique_def ExampleSubsystem_fields)

lemma NegativeScalarWorld_fields:
  "GFrameCounter NegativeScalarWorld = 5"
  "ObjectAlive NegativeScalarWorld a"
  "GetBlendScalar NegativeScalarWorld c = (if c = 1 then fone else Finite True (2 ^ 149))"
  by (simp_all add: NegativeScalarWorld_def EqualDistanceWorld_def ExampleWorld_def)

lemma NegativeScalar_CacheComponent:
  "0 < c \<Longrightarrow> CacheComponent NegativeScalarWorld True 0 c =
     \<lparr>Component = Some c, BlendWeight = fzero, DistanceBias = fone,
      Scalar = (if c = 1 then fone else Finite True (2 ^ 149)), Dist = FloatOfNat 10\<rparr>"
  by (simp add: CacheComponent_def NegativeScalarWorld_def EqualDistanceWorld_def ExampleWorld_def
      FDistanceBlendWeight_ctor_def)

lemma HugeScalarWorld_fields:
  "GFrameCounter HugeScalarWorld = 5"
  "ObjectAlive HugeScalarWorld a"
  "GetBlendScalar HugeScalarWorld c = Binary32 14680064 104"
  by (simp_all add: HugeScalarWorld_def ExampleWorld_def)

lemma HugeScalar_CacheComponent:
  "CacheComponent HugeScalarWorld True 0 c =
     \<lparr>Component = Some c, BlendWeight = fzero, DistanceBias = fone,
      Scalar = Binary32 14680064 104, Dist = FloatOfNat (10 * c)\<rparr>"
  by (simp add: CacheComponent_def HugeScalarWorld_def ExampleWorld_def
      FDistanceBlendWeight_ctor_def nat_mult_distrib)

text \<open>Evaluation of a whole recomputation.\<close>

lemmas recompute_eval = GetBlendWeights_def IsValid_def ShouldUpdateDistance_def
  ComputeBlendWeights_def ComputeBias_def WriteComponent_def

lemma FindLowest_foldl:
  "FindLowest Ws l = foldl (\<lambda>l x. if fless x l then x else l) l (map BlendWeight Ws)"
  by (induction Ws arbitrary: l) simp_all

text \<open>The weights of a recomputation, stage by stage.\<close>

lemma GetBlendWeights_weights:
  assumes T: "BlendTarget s = Some T" "ObjectAlive w T"
    and upd: "ShouldUpdateDistance w s"
    and ne: "BlendComponents s \<noteq> []"
    and avg: "fdiv (foldl fadd fzero (map (\<lambda>c. Dist (CacheComponent w xy T c)) (BlendComponents s)))
                (FloatOfNat (length (BlendComponents s))) = avg"
    and raw: "map (\<lambda>c. fmul (fdiv avg (Dist (CacheComponent w xy T c))) (GetBlendScalar w c))
                (BlendComponents s) = raw"
    and lo: "foldl (\<lambda>l x. if fless x l then x else l) INFINITY raw = lo"
    and res: "map (\<lambda>x. fdiv x lo) raw = res"
    and S: "foldl fadd fzero res = S"
  shows "map BlendWeight (fst (snd (GetBlendWeights w xy s))) = map (\<lambda>x. fdiv x S) res"
    and "snd (snd (GetBlendWeights w xy s))"
    and "map Component (fst (snd (GetBlendWeights w xy s))) = map Some (BlendComponents s)"
    and "map Scalar (fst (snd (GetBlendWeights w xy s))) = map (GetBlendScalar w) (BlendComponents s)"
    and "map Dist (fst (snd (GetBlendWeights w xy s)))
           = map (\<lambda>c. Dist (CacheComponent w xy T c)) (BlendComponents s)"
    and "BlendWeights (fst (GetBlendWeights w xy s)) = fst (snd (GetBlendWeights w xy s))"
proof -
  define lo' where "lo' = FindLowest (map (\<lambda>c. ComputeBias avg (CacheComponent w xy T c)) (BlendComponents s))
                        INFINITY"
  define S' where "S' = foldl fadd fzero
                      (map (\<lambda>c. fdiv (BlendWeight (ComputeBias avg (CacheComponent w xy T c))) lo')
                         (BlendComponents s))"
  define F where "F = map (\<lambda>c. (ComputeBias avg (CacheComponent w xy T c))
                 \<lparr>BlendWeight := fdiv (fdiv (BlendWeight (ComputeBias avg (CacheComponent w xy T c))) lo') S'\<rparr>)
               (BlendComponents s)"
  from ComputeBlendWeights_shape [OF ne avg [symmetric] lo'_def S'_def F_def]
  obtain Store where g: "GetBlendWeights w xy s =
           (s\<lparr>LastUpdateFrame := GFrameCounter w, BlendWeights := F,
              LastValidBlendWeights := F, ComponentBlendWeight := Store\<rparr>, F, True)"
    using T upd by (auto simp: GetBlendWeights_compute)
  have r: "map (\<lambda>c. BlendWeight (ComputeBias avg (CacheComponent w xy T c))) (BlendComponents s) = raw"
    by (simp add: ComputeBias_def raw)
  have l: "lo' = lo"
    by (simp add: lo'_def FindLowest_foldl comp_def r lo)
  have "map (\<lambda>c. fdiv (BlendWeight (ComputeBias avg (CacheComponent w xy T c))) lo) (BlendComponents s)
          = map (\<lambda>x. fdiv x lo) (map (\<lambda>c. BlendWeight (ComputeBias avg (CacheComponent w xy T c)))
                                    (BlendComponents s))"
    by (simp add: comp_def)
  then have e: "map (\<lambda>c. fdiv (BlendWeight (ComputeBias avg (CacheComponent w xy T c))) lo) (BlendComponents s)
                  = res"
    by (simp only: r res)
  have S2: "S' = S"
    by (simp only: S'_def l e S)
  have "map BlendWeight F
          = map (\<lambda>x. fdiv x S)
              (map (\<lambda>c. fdiv (BlendWeight (ComputeBias avg (CacheComponent w xy T c))) lo) (BlendComponents s))"
    by (simp add: F_def comp_def l S2)
  then show "map BlendWeight (fst (snd (GetBlendWeights w xy s))) = map (\<lambda>x. fdiv x S) res"
    by (simp only: e g fst_conv snd_conv)
  show "snd (snd (GetBlendWeights w xy s))" by (simp add: g)
  show "map Component (fst (snd (GetBlendWeights w xy s))) = map Some (BlendComponents s)"
    by (simp add: g F_def comp_def ComputeBias_def)
  show "map Scalar (fst (snd (GetBlendWeights w xy s))) = map (GetBlendScalar w) (BlendComponents s)"
    by (simp add: g F_def comp_def ComputeBias_def)
  show "map Dist (fst (snd (GetBlendWeights w xy s)))
           = map (\<lambda>c. Dist (CacheComponent w xy T c)) (BlendComponents s)"
    by (simp add: g F_def comp_def ComputeBias_def)
  show "BlendWeights (fst (GetBlendWeights w xy s)) = fst (snd (GetBlendWeights w xy s))"
    by (simp add: g)
qed

lemma NegativeScalar_weights:
  "map BlendWeight (fst (snd (GetBlendWeights NegativeScalarWorld True ExampleSubsystem)))
     = [Finite True (2 ^ 149), fone, fone]"
proof -
  have avg: "fdiv (foldl fadd fzero (map (\<lambda>c. Dist (CacheComponent NegativeScalarWorld True 0 c))
                                       (BlendComponents ExampleSubsystem)))
               (FloatOfNat (length (BlendComponents ExampleSubsystem))) = Binary32 10 0"
    by (simp add: ExampleSubsystem_fields NegativeScalar_CacheComponent float_eval)
  have raw: "map (\<lambda>c. fmul (fdiv (Binary32 10 0) (Dist (CacheComponent NegativeScalarWorld True 0 c)))
                        (GetBlendScalar NegativeScalarWorld c))
               (BlendComponents ExampleSubsystem) = [fone, Finite True (2 ^ 149), Finite True (2 ^ 149)]"
    by (simp add: ExampleSubsystem_fields NegativeScalar_CacheComponent NegativeScalarWorld_fields
        float_eval)
  have lo: "foldl (\<lambda>l x. if fless x l then x else l) INFINITY
              [fone, Finite True (2 ^ 149), Finite True (2 ^ 149)] = Finite True (2 ^ 149)"
    by (simp add: float_eval)
  have res: "map (\<lambda>x. fdiv x (Finite True (2 ^ 149))) [fone, Finite True (2 ^ 149), Finite True (2 ^ 149)]
               = [Finite True (2 ^ 149), fone, fone]"
    by (simp add: float_eval)
  have S: "foldl fadd fzero [Finite True (2 ^ 149), fone, fone] = fone"
    by (simp add: float_eval)
  have "map BlendWeight (fst (snd (GetBlendWeights NegativeScalarWorld True ExampleSubsystem)))
          = map (\<lambda>x. fdiv x fone) [Finite True (2 ^ 149), fone, fone]"
    by (rule GetBlendWeights_weights(1) [OF _ _ _ _ avg raw lo res S])
      (simp_all add: ExampleSubsystem_fields NegativeScalarWorld_fields ShouldUpdateDistance_def)
  also have "\<dots> = [Finite True (2 ^ 149), fone, fone]"
    by (simp add: float_eval)
  finally show ?thesis .
qed

section \<open>Claims on the control flow\<close>

text \<open>
  C2, as the claim states it, fails. After a query in frame 5 the subsystem holds three
  weight records; once the target actor is destroyed the target is no longer valid, and
  the next query returns the three records with bValid false. The same happens at a
  subsystem whose stored target is null while its array holds a record.
\<close>

theorem no_target_valid_counterexample:
  "\<not> IsValid DestroyedTargetWorld (BlendTarget ComputedSubsystem) \<and>
   length (BlendWeights ComputedSubsystem) = 3 \<and>
   fst (snd (GetBlendWeights DestroyedTargetWorld True ComputedSubsystem))
     = BlendWeights ComputedSubsystem \<and>
   snd (snd (GetBlendWeights DestroyedTargetWorld True ComputedSubsystem)) = False \<and>
   BlendTarget NullTargetSubsystem = None \<and>
   BlendWeights NullTargetSubsystem \<noteq> [] \<and>
   snd (snd (GetBlendWeights ExampleWorld True NullTargetSubsystem)) = False"
proof -
  have i: "\<not> IsValid DestroyedTargetWorld (BlendTarget ComputedSubsystem)"
    by (simp add: IsValid_def ComputedSubsystem_fields DestroyedTargetWorld_fields)
  have t: "BlendTarget NullTargetSubsystem = None" "BlendWeights NullTargetSubsystem \<noteq> []"
    by (simp_all add: NullTargetSubsystem_def InitialSubsystem_def)
  have n: "\<not> IsValid ExampleWorld (BlendTarget NullTargetSubsystem)"
    by (simp add: IsValid_def t)
  have l: "length (BlendWeights ComputedSubsystem) = 3"
    by (simp add: ComputedSubsystem_fields ExampleFinal_eq)
  show ?thesis
    using i t l by (simp add: GetBlendWeights_invalid [OF i] GetBlendWeights_invalid [OF n])
qed

text \<open>
  C2, amended. Whenever the target is not valid (null, or an actor that no longer
  exists), GetBlendWeights leaves the subsystem as it is, returns the current
  BlendWeights and sets bValid to false, whether or not the array is empty.
\<close>

theorem no_target_returns_invalid:
  assumes "\<not> IsValid w (BlendTarget s)"
  shows "GetBlendWeights w bDistanceXY s = (s, BlendWeights s, False)"
  using assms by (simp add: GetBlendWeights_def)

theorem no_target_returns_invalid_witness:
  "\<not> IsValid DestroyedTargetWorld (BlendTarget ComputedSubsystem) \<and>
   GetBlendWeights DestroyedTargetWorld True ComputedSubsystem
     = (ComputedSubsystem, BlendWeights ComputedSubsystem, False)"
proof -
  have i: "\<not> IsValid DestroyedTargetWorld (BlendTarget ComputedSubsystem)"
    by (simp add: IsValid_def ComputedSubsystem_fields DestroyedTargetWorld_fields)
  from i no_target_returns_invalid [OF i] show ?thesis by blast
qed

text \<open>
  C5. When LastUpdateFrame equals GFrameCounter, GetBlendWeights leaves the subsystem as
  it is and returns the BlendWeights it holds; so does any number of calls, with any
  flags, while the frame counter stays at the stamp. A call with a valid target leaves
  the stamp at the current frame, so at most one call per frame computes. A second call
  against the same engine state returns what the first returned.
\<close>

theorem same_frame_no_recompute:
  "(LastUpdateFrame s = GFrameCounter w \<longrightarrow>
      GetBlendWeights w bDistanceXY s
        = (s, BlendWeights s, IsValid w (BlendTarget s) \<and> 0 < length (BlendWeights s))) \<and>
   (LastUpdateFrame s = Frame \<and> (\<forall>q \<in> set calls. GFrameCounter (fst q) = Frame) \<longrightarrow>
      RepeatGetBlendWeights calls s = s) \<and>
   (IsValid w (BlendTarget s) \<longrightarrow>
      LastUpdateFrame (fst (GetBlendWeights w bDistanceXY s)) = GFrameCounter w) \<and>
   GetBlendWeights w bDistanceXY' (fst (GetBlendWeights w bDistanceXY s))
     = GetBlendWeights w bDistanceXY s"
proof -
  have a: "GetBlendWeights v xy t = (t, BlendWeights t, IsValid v (BlendTarget t) \<and> 0 < length (BlendWeights t))"
    if "LastUpdateFrame t = GFrameCounter v" for t xy v
    using that by (simp add: GetBlendWeights_def ShouldUpdateDistance_def)
  have st: "LastUpdateFrame (fst (GetBlendWeights w xy t)) = GFrameCounter w"
    if "IsValid w (BlendTarget t)" for t xy
    using GetBlendWeights_effect [of w xy t] that
    by (auto simp: ShouldUpdateDistance_def)
  have b: "GetBlendWeights w xy' (fst (GetBlendWeights w xy t)) = GetBlendWeights w xy t" for t xy xy'
  proof (cases "IsValid w (BlendTarget t)")
    case False
    then show ?thesis by (simp add: GetBlendWeights_invalid)
  next
    case valid: True
    then obtain T where T: "BlendTarget t = Some T" "ObjectAlive w T"
      by (auto simp: IsValid_def split: option.splits)
    show ?thesis
    proof (cases "ShouldUpdateDistance w t")
      case False
      with valid show ?thesis by (simp add: GetBlendWeights_cached)
    next
      case upd: True
      show ?thesis
      proof (cases "BlendComponents t = []")
        case True
        have g: "GetBlendWeights w xy t =
                   (t\<lparr>LastUpdateFrame := GFrameCounter w, BlendWeights := []\<rparr>, [], False)"
          using T upd True by (simp add: GetBlendWeights_compute ComputeBlendWeights_empty)
        have "GetBlendWeights w xy' (t\<lparr>LastUpdateFrame := GFrameCounter w, BlendWeights := []\<rparr>)
                = (t\<lparr>LastUpdateFrame := GFrameCounter w, BlendWeights := []\<rparr>, [], False)"
          using valid by (simp add: GetBlendWeights_def ShouldUpdateDistance_def)
        then show ?thesis by (simp only: g fst_conv)
      next
        case False
        from ComputeBlendWeights_nonempty [OF False, of w xy T]
        obtain Final Store where m: "map Component Final = map Some (BlendComponents t)"
          and g: "GetBlendWeights w xy t =
                    (t\<lparr>LastUpdateFrame := GFrameCounter w, BlendWeights := Final,
                       LastValidBlendWeights := Final, ComponentBlendWeight := Store\<rparr>, Final, True)"
          using T upd by (auto simp: GetBlendWeights_compute)
        from m False have "Final \<noteq> []" by auto
        with valid have "GetBlendWeights w xy'
                  (t\<lparr>LastUpdateFrame := GFrameCounter w, BlendWeights := Final,
                     LastValidBlendWeights := Final, ComponentBlendWeight := Store\<rparr>)
                = (t\<lparr>LastUpdateFrame := GFrameCounter w, BlendWeights := Final,
                     LastValidBlendWeights := Final, ComponentBlendWeight := Store\<rparr>, Final, True)"
          by (simp add: GetBlendWeights_def ShouldUpdateDistance_def)
        then show ?thesis by (simp only: g fst_conv)
      qed
    qed
  qed
  have c: "RepeatGetBlendWeights cs t = t"
    if "LastUpdateFrame t = Frame" and "\<forall>q \<in> set cs. GFrameCounter (fst q) = Frame" for cs t
    using that
  proof (induction cs)
    case Nil
    show ?case by simp
  next
    case (Cons q cs)
    obtain v xy where q: "q = (v, xy)" by (cases q)
    from Cons.prems have "LastUpdateFrame t = GFrameCounter v" by (simp add: q)
    then have "fst (GetBlendWeights v xy t) = t" by (simp add: a)
    with Cons show ?case by (simp add: q)
  qed
  from a [of s w bDistanceXY] b [of bDistanceXY' bDistanceXY s] c [of s calls] st [of s bDistanceXY]
  show ?thesis by blast
qed

theorem same_frame_no_recompute_witness:
  "LastUpdateFrame ComputedSubsystem = GFrameCounter ExampleWorld \<and>
   GetBlendWeights ExampleWorld False ComputedSubsystem
     = (ComputedSubsystem, BlendWeights ComputedSubsystem, True) \<and>
   RepeatGetBlendWeights [(ExampleWorld, False), (EqualDistanceWorld, True), (ExampleWorld, True)]
     ComputedSubsystem = ComputedSubsystem \<and>
   LastUpdateFrame (fst (GetBlendWeights ExampleWorld True ExampleSubsystem)) = GFrameCounter ExampleWorld"
proof -
  have e: "LastUpdateFrame ComputedSubsystem = GFrameCounter ExampleWorld"
    by (simp add: ComputedSubsystem_fields ExampleWorld_fields)
  have v: "IsValid ExampleWorld (BlendTarget ComputedSubsystem) \<and> 0 < length (BlendWeights ComputedSubsystem)"
    by (simp add: IsValid_def ComputedSubsystem_fields ExampleWorld_fields ExampleFinal_eq)
  have q: "LastUpdateFrame ComputedSubsystem = 5 \<and>
           (\<forall>q \<in> set [(ExampleWorld, False), (EqualDistanceWorld, True), (ExampleWorld, True)].
              GFrameCounter (fst q) = 5)"
    by (simp add: ComputedSubsystem_fields ExampleWorld_fields EqualDistanceWorld_fields)
  have i: "IsValid ExampleWorld (BlendTarget ExampleSubsystem)"
    by (simp add: IsValid_def ExampleSubsystem_fields ExampleWorld_fields)
  note t1 = same_frame_no_recompute [of ComputedSubsystem ExampleWorld False 5
      "[(ExampleWorld, False), (EqualDistanceWorld, True), (ExampleWorld, True)]" False]
  note t2 = same_frame_no_recompute [of ExampleSubsystem ExampleWorld True 5 "[]" True]
  from t1 e v have 1: "GetBlendWeights ExampleWorld False ComputedSubsystem
     = (ComputedSubsystem, BlendWeights ComputedSubsystem, True)" by simp
  from t1 q have 2: "RepeatGetBlendWeights
     [(ExampleWorld, False), (EqualDistanceWorld, True), (ExampleWorld, True)]
     ComputedSubsystem = ComputedSubsystem" by blast
  from t2 i have 3: "LastUpdateFrame (fst (GetBlendWeights ExampleWorld True ExampleSubsystem))
     = GFrameCounter ExampleWorld" by blast
  from e 1 2 3 show ?thesis by blast
qed

text \<open>
  C6. A call of GetBlendWeights overwrites LastValidBlendWeights exactly when it
  recomputes (valid target, stale frame stamp) over at least one registered component,
  and then with the non-empty array it returns. A recomputation over no component returns
  the empty array with bValid false and keeps LastValidBlendWeights, so
  GetLastValidBlendWeights answers as before.
\<close>

theorem last_valid_overwritten_only_by_nonempty:
  "LastValidBlendWeights (fst (GetBlendWeights w bDistanceXY s)) =
     (if IsValid w (BlendTarget s) \<and> ShouldUpdateDistance w s \<and> BlendComponents s \<noteq> []
      then fst (snd (GetBlendWeights w bDistanceXY s)) else LastValidBlendWeights s) \<and>
   (IsValid w (BlendTarget s) \<and> ShouldUpdateDistance w s \<and> BlendComponents s \<noteq> [] \<longrightarrow>
      fst (snd (GetBlendWeights w bDistanceXY s)) \<noteq> [] \<and>
      BlendWeights (fst (GetBlendWeights w bDistanceXY s)) = fst (snd (GetBlendWeights w bDistanceXY s))) \<and>
   (IsValid w (BlendTarget s) \<and> ShouldUpdateDistance w s \<and> BlendComponents s = [] \<longrightarrow>
      BlendWeights (fst (GetBlendWeights w bDistanceXY s)) = [] \<and>
      fst (snd (GetBlendWeights w bDistanceXY s)) = [] \<and>
      snd (snd (GetBlendWeights w bDistanceXY s)) = False \<and>
      GetLastValidBlendWeights (fst (GetBlendWeights w bDistanceXY s)) = GetLastValidBlendWeights s)"
  using GetBlendWeights_effect [of w bDistanceXY s]
  by (elim disjE conjE exE) (auto simp: GetLastValidBlendWeights_def)

theorem last_valid_overwritten_only_by_nonempty_witness:
  "IsValid NextFrameWorld (BlendTarget EmptiedSubsystem) \<and>
   ShouldUpdateDistance NextFrameWorld EmptiedSubsystem \<and>
   BlendComponents EmptiedSubsystem = [] \<and>
   fst (snd (GetBlendWeights NextFrameWorld True EmptiedSubsystem)) = [] \<and>
   snd (snd (GetBlendWeights NextFrameWorld True EmptiedSubsystem)) = False \<and>
   GetLastValidBlendWeights (fst (GetBlendWeights NextFrameWorld True EmptiedSubsystem))
     = (ExampleFinal, True)"
proof -
  have h: "IsValid NextFrameWorld (BlendTarget EmptiedSubsystem) \<and>
           ShouldUpdateDistance NextFrameWorld EmptiedSubsystem \<and> BlendComponents EmptiedSubsystem = []"
    by (simp add: IsValid_def ShouldUpdateDistance_def EmptiedSubsystem_fields NextFrameWorld_fields)
  have l: "GetLastValidBlendWeights EmptiedSubsystem = (ExampleFinal, True)"
    by (simp add: GetLastValidBlendWeights_def EmptiedSubsystem_fields ComputedSubsystem_fields
        ExampleFinal_eq)
  from last_valid_overwritten_only_by_nonempty [of NextFrameWorld True EmptiedSubsystem] h l
  show ?thesis by simp
qed

lemma distinct_AddUnique: "distinct xs \<Longrightarrow> distinct (AddUnique xs x)"
  by (simp add: AddUnique_def)

lemma distinct_Remove: "distinct xs \<Longrightarrow> distinct (Remove xs x)"
  by (simp add: Remove_def)

lemma BlendComponents_GetBlendWeights:
  "BlendComponents (fst (GetBlendWeights w xy s)) = BlendComponents s"
  using GetBlendWeights_effect [of w xy s]
  by (elim disjE conjE exE) auto

lemma distinct_Perform:
  "distinct (BlendComponents s) \<Longrightarrow> distinct (BlendComponents (Perform w c s))"
  by (cases c)
    (simp_all add: AssignBlendTarget_def WeakObjectPtrEqual_def RegisterBlendComponent_def UnregisterBlendComponent_def
      distinct_AddUnique distinct_Remove BlendComponents_GetBlendWeights)

lemma distinct_PerformAll:
  "distinct (BlendComponents s) \<Longrightarrow> distinct (BlendComponents (PerformAll cs s))"
proof (induction cs arbitrary: s)
  case Nil
  then show ?case by simp
next
  case (Cons wc cs)
  obtain w c where wc: "wc = (w, c)" by (cases wc)
  from Cons.prems have "distinct (BlendComponents (Perform w c s))"
    by (rule distinct_Perform)
  then show ?case
    using Cons.IH by (simp add: wc)
qed

text \<open>The components registered both before and after a call keep their order.\<close>

lemma order_kept_Perform:
  "filter (\<lambda>x. x \<in> set (BlendComponents (Perform w c s))) (BlendComponents s)
     = filter (\<lambda>x. x \<in> set (BlendComponents s)) (BlendComponents (Perform w c s))"
proof (cases c)
  case (CallRegisterBlendComponent b)
  then show ?thesis
    by (auto simp: RegisterBlendComponent_def AddUnique_def intro: filter_cong)
next
  case (CallUnregisterBlendComponent b)
  have "filter (\<lambda>x. x \<in> set (filter (\<lambda>y. y \<noteq> b) (BlendComponents s))) (BlendComponents s)
          = filter (\<lambda>y. y \<noteq> b) (BlendComponents s)"
    by (rule filter_cong) auto
  moreover have "filter (\<lambda>x. x \<in> set (BlendComponents s)) (filter (\<lambda>y. y \<noteq> b) (BlendComponents s))
          = filter (\<lambda>y. y \<noteq> b) (BlendComponents s)"
    by (rule trans [OF filter_cong [OF refl] filter_True [OF TrueI [THEN ballI]]]) auto
  moreover have "BlendComponents (Perform w c s) = filter (\<lambda>y. y \<noteq> b) (BlendComponents s)"
    by (simp add: CallUnregisterBlendComponent UnregisterBlendComponent_def Remove_def)
  ultimately show ?thesis
    by (simp only:)
qed (simp_all add: AssignBlendTarget_def WeakObjectPtrEqual_def BlendComponents_GetBlendWeights)

text \<open>
  C9. RegisterBlendComponent appends a component that is not yet registered and changes
  nothing when it is; UnregisterBlendComponent removes a registered component, keeps the
  order of the others, and changes nothing when the component is not registered. After
  any sequence of calls on a new subsystem the registry has no duplicates, and every
  single call keeps the order of the components that are registered before and after it.
\<close>

theorem registry_unique_and_ordered:
  "BlendComponents (RegisterBlendComponent c s) =
     (if c \<in> set (BlendComponents s) then BlendComponents s else BlendComponents s @ [c]) \<and>
   (c \<in> set (BlendComponents s) \<longrightarrow> RegisterBlendComponent c s = s) \<and>
   c \<notin> set (BlendComponents (UnregisterBlendComponent c s)) \<and>
   set (BlendComponents (UnregisterBlendComponent c s)) = set (BlendComponents s) - {c} \<and>
   subseq (BlendComponents (UnregisterBlendComponent c s)) (BlendComponents s) \<and>
   (c \<notin> set (BlendComponents s) \<longrightarrow> UnregisterBlendComponent c s = s) \<and>
   prefix (BlendComponents s) (BlendComponents (RegisterBlendComponent c s)) \<and>
   distinct (BlendComponents (PerformAll calls InitialSubsystem)) \<and>
   (distinct (BlendComponents s) \<longrightarrow> distinct (BlendComponents (PerformAll calls s))) \<and>
   filter (\<lambda>x. x \<in> set (BlendComponents (Perform w call s))) (BlendComponents s)
     = filter (\<lambda>x. x \<in> set (BlendComponents s)) (BlendComponents (Perform w call s))"
proof -
  have "c \<notin> set (BlendComponents s) \<Longrightarrow> filter (\<lambda>y. y \<noteq> c) (BlendComponents s) = BlendComponents s"
    by (induction "BlendComponents s") (auto simp: filter_id_conv)
  moreover have "distinct (BlendComponents InitialSubsystem)"
    by (simp add: InitialSubsystem_def)
  then have "distinct (BlendComponents (PerformAll calls InitialSubsystem))"
    by (rule distinct_PerformAll)
  ultimately have "BlendComponents (RegisterBlendComponent c s) =
     (if c \<in> set (BlendComponents s) then BlendComponents s else BlendComponents s @ [c]) \<and>
   (c \<in> set (BlendComponents s) \<longrightarrow> RegisterBlendComponent c s = s) \<and>
   c \<notin> set (BlendComponents (UnregisterBlendComponent c s)) \<and>
   set (BlendComponents (UnregisterBlendComponent c s)) = set (BlendComponents s) - {c} \<and>
   subseq (BlendComponents (UnregisterBlendComponent c s)) (BlendComponents s) \<and>
   (c \<notin> set (BlendComponents s) \<longrightarrow> UnregisterBlendComponent c s = s) \<and>
   prefix (BlendComponents s) (BlendComponents (RegisterBlendComponent c s)) \<and>
   distinct (BlendComponents (PerformAll calls InitialSubsystem)) \<and>
   (distinct (BlendComponents s) \<longrightarrow> distinct (BlendComponents (PerformAll calls s)))"
    by (auto simp: RegisterBlendComponent_def UnregisterBlendComponent_def AddUnique_def Remove_def
        distinct_PerformAll)
  with order_kept_Perform [of w call s] show ?thesis by blast
qed

theorem registry_unique_and_ordered_witness:
  "BlendComponents ExampleSubsystem = [1, 2, 3] \<and>
   RegisterBlendComponent 2 ExampleSubsystem = ExampleSubsystem \<and>
   UnregisterBlendComponent 4 ExampleSubsystem = ExampleSubsystem \<and>
   BlendComponents (RegisterBlendComponent 4 ExampleSubsystem) = [1, 2, 3, 4] \<and>
   distinct (BlendComponents
     (PerformAll [(ExampleWorld, CallRegisterBlendComponent 2),
                  (ExampleWorld, CallUnregisterBlendComponent 1),
                  (ExampleWorld, CallRegisterBlendComponent 1)] ExampleSubsystem))"
proof -
  have d: "distinct (BlendComponents ExampleSubsystem)"
    by (simp add: ExampleSubsystem_fields)
  have m: "2 \<in> set (BlendComponents ExampleSubsystem)" "4 \<notin> set (BlendComponents ExampleSubsystem)"
    by (simp_all add: ExampleSubsystem_fields)
  note a = registry_unique_and_ordered [of 2 ExampleSubsystem
      "[(ExampleWorld, CallRegisterBlendComponent 2),
        (ExampleWorld, CallUnregisterBlendComponent 1),
        (ExampleWorld, CallRegisterBlendComponent 1)]"]
  note b = registry_unique_and_ordered [of 4 ExampleSubsystem "[]"]
  from a m(1) have 1: "RegisterBlendComponent 2 ExampleSubsystem = ExampleSubsystem" by blast
  from b m(2) have 2: "UnregisterBlendComponent 4 ExampleSubsystem = ExampleSubsystem" by blast
  from b m(2) have 3: "BlendComponents (RegisterBlendComponent 4 ExampleSubsystem)
                         = BlendComponents ExampleSubsystem @ [4]"
    by presburger
  from a d have 4: "distinct (BlendComponents
     (PerformAll [(ExampleWorld, CallRegisterBlendComponent 2),
                  (ExampleWorld, CallUnregisterBlendComponent 1),
                  (ExampleWorld, CallRegisterBlendComponent 1)] ExampleSubsystem))" by blast
  from 1 2 3 4 show ?thesis by (simp add: ExampleSubsystem_fields)
qed

lemma LastValid_GetBlendWeights:
  "LastValidBlendWeights s \<noteq> [] \<Longrightarrow> LastValidBlendWeights (fst (GetBlendWeights w xy s)) \<noteq> []"
  using GetBlendWeights_effect [of w xy s]
  by (elim disjE conjE exE) auto

lemma LastValid_Perform:
  "LastValidBlendWeights s \<noteq> [] \<Longrightarrow> LastValidBlendWeights (Perform w c s) \<noteq> []"
  by (cases c)
    (simp_all add: AssignBlendTarget_def WeakObjectPtrEqual_def RegisterBlendComponent_def UnregisterBlendComponent_def
      LastValid_GetBlendWeights)

lemma LastValid_PerformAll:
  "LastValidBlendWeights s \<noteq> [] \<Longrightarrow> LastValidBlendWeights (PerformAll cs s) \<noteq> []"
proof (induction cs arbitrary: s)
  case Nil
  then show ?case by simp
next
  case (Cons wc cs)
  obtain w c where wc: "wc = (w, c)" by (cases wc)
  from Cons.prems have "LastValidBlendWeights (Perform w c s) \<noteq> []"
    by (rule LastValid_Perform)
  then show ?case
    using Cons.IH by (simp add: wc)
qed

text \<open>
  C10. Once LastValidBlendWeights is non-empty it stays non-empty under every call and
  every sequence of calls, so GetLastValidBlendWeights keeps reporting bValid true.
  AssignBlendTarget in particular leaves LastValidBlendWeights as it is, also when it
  clears BlendWeights and the frame stamp.
\<close>

theorem last_valid_stays_nonempty:
  assumes "LastValidBlendWeights s \<noteq> []"
  shows "LastValidBlendWeights (Perform w c s) \<noteq> [] \<and>
         LastValidBlendWeights (PerformAll calls s) \<noteq> [] \<and>
         snd (GetLastValidBlendWeights (PerformAll calls s)) \<and>
         LastValidBlendWeights (AssignBlendTarget w NewBlendTarget s) = LastValidBlendWeights s \<and>
         LastValidBlendWeights (RegisterBlendComponent BlendComponent s) = LastValidBlendWeights s \<and>
         LastValidBlendWeights (UnregisterBlendComponent BlendComponent s) = LastValidBlendWeights s"
  using LastValid_Perform [OF assms, of w c] LastValid_PerformAll [OF assms, of calls]
  by (simp add: GetLastValidBlendWeights_def AssignBlendTarget_def WeakObjectPtrEqual_def RegisterBlendComponent_def
      UnregisterBlendComponent_def)

theorem last_valid_stays_nonempty_witness:
  "LastValidBlendWeights ComputedSubsystem \<noteq> [] \<and>
   BlendWeights (AssignBlendTarget ExampleWorld None ComputedSubsystem) = [] \<and>
   LastValidBlendWeights (AssignBlendTarget ExampleWorld None ComputedSubsystem) = ExampleFinal \<and>
   LastValidBlendWeights
     (PerformAll [(ExampleWorld, CallAssignBlendTarget None),
                  (ExampleWorld, CallUnregisterBlendComponent 1),
                  (NextFrameWorld, CallGetBlendWeights True),
                  (NextFrameWorld, CallAssignBlendTarget (Some 0)),
                  (NextFrameWorld, CallGetBlendWeights False)] ComputedSubsystem) \<noteq> []"
proof -
  have n: "LastValidBlendWeights ComputedSubsystem \<noteq> []"
    by (simp add: ComputedSubsystem_fields ExampleFinal_eq)
  note t = last_valid_stays_nonempty [OF n, of ExampleWorld CallGetLastValidBlendWeights
      "[(ExampleWorld, CallAssignBlendTarget None),
        (ExampleWorld, CallUnregisterBlendComponent 1),
        (NextFrameWorld, CallGetBlendWeights True),
        (NextFrameWorld, CallAssignBlendTarget (Some 0)),
        (NextFrameWorld, CallGetBlendWeights False)]" None]
  have b: "BlendWeights (AssignBlendTarget ExampleWorld None ComputedSubsystem) = []"
    by (simp add: AssignBlendTarget_def WeakObjectPtrEqual_def IsValid_def ComputedSubsystem_fields
        ExampleWorld_fields)
  from t n b show ?thesis
    by (simp add: ComputedSubsystem_fields)
qed

text \<open>
  C4, as the claim states it, fails in two ways. The subsystem was computed in frame 5
  with actor 0 as target. Assigning the null target differs from the stored one, and the
  query that follows in the same frame returns at once: the array stays empty although
  three components are registered, and the frame stamp stays at the sentinel. And once
  actor 0 has been destroyed, the null target still differs by identity from the stored
  one, but the engine's comparison finds them equal: the three records and the frame
  stamp 5 stay.
\<close>

theorem assign_null_counterexample:
  "None \<noteq> BlendTarget ComputedSubsystem \<and>
   LastUpdateFrame ComputedSubsystem = GFrameCounter ExampleWorld \<and>
   BlendComponents (AssignBlendTarget ExampleWorld None ComputedSubsystem) = [1, 2, 3] \<and>
   fst (GetBlendWeights ExampleWorld True (AssignBlendTarget ExampleWorld None ComputedSubsystem))
     = AssignBlendTarget ExampleWorld None ComputedSubsystem \<and>
   fst (snd (GetBlendWeights ExampleWorld True (AssignBlendTarget ExampleWorld None ComputedSubsystem))) = [] \<and>
   LastUpdateFrame (fst (GetBlendWeights ExampleWorld True (AssignBlendTarget ExampleWorld None ComputedSubsystem)))
     \<noteq> GFrameCounter ExampleWorld \<and>
   length (BlendWeights (AssignBlendTarget DestroyedTargetWorld None ComputedSubsystem)) = 3 \<and>
   LastUpdateFrame (AssignBlendTarget DestroyedTargetWorld None ComputedSubsystem) = 5"
proof -
  have n: "\<not> IsValid ExampleWorld (BlendTarget (AssignBlendTarget ExampleWorld None ComputedSubsystem))"
    by (simp add: IsValid_def AssignBlendTarget_def)
  have f: "BlendComponents (AssignBlendTarget ExampleWorld None ComputedSubsystem) = [1, 2, 3]"
    "BlendWeights (AssignBlendTarget ExampleWorld None ComputedSubsystem) = []"
    "LastUpdateFrame (AssignBlendTarget ExampleWorld None ComputedSubsystem) = - 1"
    by (simp_all add: AssignBlendTarget_def WeakObjectPtrEqual_def IsValid_def ComputedSubsystem_fields
        ExampleWorld_fields)
  have d: "BlendWeights (AssignBlendTarget DestroyedTargetWorld None ComputedSubsystem) = ExampleFinal"
    "LastUpdateFrame (AssignBlendTarget DestroyedTargetWorld None ComputedSubsystem) = 5"
    by (simp_all add: AssignBlendTarget_def WeakObjectPtrEqual_def IsValid_def ComputedSubsystem_fields
        DestroyedTargetWorld_fields)
  show ?thesis
    by (simp add: GetBlendWeights_invalid [OF n] f d ComputedSubsystem_fields ExampleWorld_fields
        ExampleFinal_length)
qed

text \<open>
  C4, amended. AssignBlendTarget with a target that the engine's pointer comparison
  distinguishes from the stored one (not the same object, and not both null or
  destroyed) empties BlendWeights, sets LastUpdateFrame to the sentinel -1 and stores
  the new target. If the new target is valid and GFrameCounter is not the sentinel, the
  GetBlendWeights that follows recomputes, whatever the frame stamp was before the
  assignment: it stamps the frame and returns one record for every registered component.
\<close>

theorem assign_target_forces_recompute:
  assumes "\<not> WeakObjectPtrEqual w NewBlendTarget (BlendTarget s)"
  shows "BlendWeights (AssignBlendTarget w NewBlendTarget s) = [] \<and>
         LastUpdateFrame (AssignBlendTarget w NewBlendTarget s) = - 1 \<and>
         BlendTarget (AssignBlendTarget w NewBlendTarget s) = NewBlendTarget \<and>
         (NewBlendTarget = Some T \<and> ObjectAlive w T \<and> GFrameCounter w \<noteq> - 1 \<longrightarrow>
            GetBlendWeights w bDistanceXY (AssignBlendTarget w NewBlendTarget s)
              = ComputeBlendWeights w bDistanceXY T (AssignBlendTarget w NewBlendTarget s) \<and>
            LastUpdateFrame (fst (GetBlendWeights w bDistanceXY (AssignBlendTarget w NewBlendTarget s)))
              = GFrameCounter w \<and>
            map Component (fst (snd (GetBlendWeights w bDistanceXY (AssignBlendTarget w NewBlendTarget s))))
              = map Some (BlendComponents s))"
proof -
  define s' where "s' = AssignBlendTarget w NewBlendTarget s"
  have f: "BlendWeights s' = []" "LastUpdateFrame s' = - 1" "BlendTarget s' = NewBlendTarget"
    "BlendComponents s' = BlendComponents s"
    using assms by (simp_all add: s'_def AssignBlendTarget_def)
  have r: "GetBlendWeights w bDistanceXY s' = ComputeBlendWeights w bDistanceXY T s' \<and>
           LastUpdateFrame (fst (GetBlendWeights w bDistanceXY s')) = GFrameCounter w \<and>
           map Component (fst (snd (GetBlendWeights w bDistanceXY s'))) = map Some (BlendComponents s)"
    if t: "NewBlendTarget = Some T" "ObjectAlive w T" "GFrameCounter w \<noteq> - 1"
  proof -
    have upd: "ShouldUpdateDistance w s'"
      using t by (simp add: ShouldUpdateDistance_def f)
    have g: "GetBlendWeights w bDistanceXY s' = ComputeBlendWeights w bDistanceXY T s'"
      using t upd by (simp add: GetBlendWeights_compute f)
    show ?thesis
    proof (cases "BlendComponents s' = []")
      case True
      then show ?thesis
        using f(4) by (simp add: g ComputeBlendWeights_empty)
    next
      case False
      from ComputeBlendWeights_nonempty [OF False, of w bDistanceXY T]
      obtain Final Store where "map Component Final = map Some (BlendComponents s')"
        and "ComputeBlendWeights w bDistanceXY T s' =
               (s'\<lparr>LastUpdateFrame := GFrameCounter w, BlendWeights := Final,
                   LastValidBlendWeights := Final, ComponentBlendWeight := Store\<rparr>, Final, True)"
        by blast
      then show ?thesis
        using f(4) by (simp add: g)
    qed
  qed
  from f r show ?thesis unfolding s'_def by blast
qed

theorem assign_target_forces_recompute_witness:
  "\<not> WeakObjectPtrEqual ExampleWorld (Some 4) (BlendTarget ComputedSubsystem) \<and>
   LastUpdateFrame ComputedSubsystem = GFrameCounter ExampleWorld \<and>
   LastUpdateFrame (AssignBlendTarget ExampleWorld (Some 4) ComputedSubsystem) = - 1 \<and>
   LastUpdateFrame (fst (GetBlendWeights ExampleWorld True
                           (AssignBlendTarget ExampleWorld (Some 4) ComputedSubsystem)))
     = GFrameCounter ExampleWorld \<and>
   map Component (fst (snd (GetBlendWeights ExampleWorld True
                              (AssignBlendTarget ExampleWorld (Some 4) ComputedSubsystem))))
     = [Some 1, Some 2, Some 3]"
proof -
  have d: "\<not> WeakObjectPtrEqual ExampleWorld (Some 4) (BlendTarget ComputedSubsystem)"
    by (simp add: WeakObjectPtrEqual_def IsValid_def ComputedSubsystem_fields ExampleWorld_fields)
  have e: "LastUpdateFrame ComputedSubsystem = GFrameCounter ExampleWorld"
    by (simp add: ComputedSubsystem_fields ExampleWorld_fields)
  have h: "Some 4 = Some 4 \<and> ObjectAlive ExampleWorld 4 \<and> GFrameCounter ExampleWorld \<noteq> - 1"
    by (simp add: ExampleWorld_fields)
  note th = assign_target_forces_recompute [OF d, of 4 True]
  from th have a: "LastUpdateFrame (AssignBlendTarget ExampleWorld (Some 4) ComputedSubsystem) = - 1"
    by blast
  from th h have b:
    "LastUpdateFrame (fst (GetBlendWeights ExampleWorld True
                             (AssignBlendTarget ExampleWorld (Some 4) ComputedSubsystem)))
       = GFrameCounter ExampleWorld \<and>
     map Component (fst (snd (GetBlendWeights ExampleWorld True
                                (AssignBlendTarget ExampleWorld (Some 4) ComputedSubsystem))))
       = map Some (BlendComponents ComputedSubsystem)"
    by blast
  show ?thesis
    using d e a b by (simp add: ComputedSubsystem_fields)
qed

lemma valof_Binary32: "- 149 \<le> e \<Longrightarrow> valof (Binary32 m e) = real m * 2 powr (real_of_int e)"
proof -
  assume e: "- 149 \<le> e"
  have "(2::real) ^ nat (e + 149) = 2 powr (real_of_int e + 149)"
    using e by (simp add: powr_realpow [symmetric])
  also have "\<dots> = 2 powr (real_of_int e) * 2 ^ 149"
    by (simp add: powr_add powr_realpow [symmetric])
  finally show ?thesis
    by (simp add: Binary32_def SignedUnits_def)
qed

lemma HugeScalar_weights:
  "map BlendWeight (fst (snd (GetBlendWeights HugeScalarWorld True ExampleSubsystem)))
     = [NaN, fzero, fzero]"
proof -
  have avg: "fdiv (foldl fadd fzero (map (\<lambda>c. Dist (CacheComponent HugeScalarWorld True 0 c))
                                       (BlendComponents ExampleSubsystem)))
               (FloatOfNat (length (BlendComponents ExampleSubsystem))) = Binary32 20 0"
    by (simp add: ExampleSubsystem_fields HugeScalar_CacheComponent) (simp add: float_eval)
  have raw: "map (\<lambda>c. fmul (fdiv (Binary32 20 0) (Dist (CacheComponent HugeScalarWorld True 0 c)))
                        (GetBlendScalar HugeScalarWorld c))
               (BlendComponents ExampleSubsystem)
             = [Infinity False, Binary32 14680064 104, Binary32 9786710 104]"
    by (simp add: ExampleSubsystem_fields HugeScalar_CacheComponent HugeScalarWorld_fields)
      (simp add: float_eval)
  have lo: "foldl (\<lambda>l x. if fless x l then x else l) INFINITY
              [Infinity False, Binary32 14680064 104, Binary32 9786710 104] = Binary32 9786710 104"
    by (simp add: float_eval)
  have res: "map (\<lambda>x. fdiv x (Binary32 9786710 104))
               [Infinity False, Binary32 14680064 104, Binary32 9786710 104]
               = [Infinity False, Binary32 12582911 (-23), fone]"
    by (simp add: float_eval)
  have S: "foldl fadd fzero [Infinity False, Binary32 12582911 (-23), fone] = Infinity False"
    by (simp add: float_eval)
  have "map BlendWeight (fst (snd (GetBlendWeights HugeScalarWorld True ExampleSubsystem)))
          = map (\<lambda>x. fdiv x (Infinity False)) [Infinity False, Binary32 12582911 (-23), fone]"
    by (rule GetBlendWeights_weights(1) [OF _ _ _ _ avg raw lo res S])
      (simp_all add: ExampleSubsystem_fields HugeScalarWorld_fields ShouldUpdateDistance_def)
  also have "\<dots> = [NaN, fzero, fzero]"
    by (simp add: float_eval)
  finally show ?thesis .
qed

lemma Example_positive:
  "\<forall>c \<in> set (BlendComponents ExampleSubsystem).
     fless fzero (GetBlendScalar ExampleWorld c) \<and> fless fzero (Dist (CacheComponent ExampleWorld True 0 c))"
  by (simp add: ExampleSubsystem_fields ExampleWorld_fields Example_CacheComponent)
    (simp add: float_eval)

lemma Example_stale: "ShouldUpdateDistance ExampleWorld ExampleSubsystem"
  by (simp add: ShouldUpdateDistance_def ExampleSubsystem_fields ExampleWorld_fields)

section \<open>Claims on the weights\<close>

text \<open>
  C8, as the claim states it, fails: 2/3 and 6/11, 3/11, 2/11 are not binary32 numbers.
  The third bias and the lowest weight are \<open>11184811 \<sqdot> 2\<^sup>-\<^sup>2\<^sup>4\<close> (about 0.66666669), the
  final weights are \<open>9151209 \<sqdot> 2\<^sup>-\<^sup>2\<^sup>4\<close>, \<open>9151209 \<sqdot> 2\<^sup>-\<^sup>2\<^sup>5\<close> and \<open>12201612 \<sqdot> 2\<^sup>-\<^sup>2\<^sup>6\<close>
  (about 0.54545456, 0.27272728 and 0.18181819), and their sum is not 1.
\<close>

theorem three_entity_exact_counterexample:
  "ExampleLowest = Binary32 11184811 (-24) \<and>
   valof (Binary32 11184811 (-24)) \<noteq> 2 / 3 \<and>
   map BlendWeight (fst (snd (GetBlendWeights ExampleWorld True ExampleSubsystem)))
     = [Binary32 9151209 (-24), Binary32 9151209 (-25), Binary32 12201612 (-26)] \<and>
   valof (Binary32 9151209 (-24)) \<noteq> 6 / 11 \<and>
   valof (Binary32 9151209 (-25)) \<noteq> 3 / 11 \<and>
   valof (Binary32 12201612 (-26)) \<noteq> 2 / 11 \<and>
   valof (Binary32 9151209 (-24)) + valof (Binary32 9151209 (-25)) + valof (Binary32 12201612 (-26)) \<noteq> 1"
  by (simp add: ExampleLowest_eq Example_GetBlendWeights ExampleFinal_eq)
    (simp add: Binary32_def SignedUnits_def)

text \<open>
  C8, amended. Components at distances 10, 20 and 30 with scalar 1: the average distance
  is 20, the biases and the precursor weights are 2, 1 and \<open>11184811 \<sqdot> 2\<^sup>-\<^sup>2\<^sup>4\<close> (within
  \<open>2\<^sup>-\<^sup>2\<^sup>5\<close> of 2/3), the lowest weight is that last number, the rescaled weights are 3,
  3/2 and 1 with sum 11/2, and the weights that GetBlendWeights returns are
  \<open>9151209 \<sqdot> 2\<^sup>-\<^sup>2\<^sup>4\<close>, \<open>9151209 \<sqdot> 2\<^sup>-\<^sup>2\<^sup>5\<close> and \<open>12201612 \<sqdot> 2\<^sup>-\<^sup>2\<^sup>6\<close>, within \<open>2\<^sup>-\<^sup>2\<^sup>5\<close> of 6/11,
  3/11 and 2/11; their exact sum is \<open>1 + 2\<^sup>-\<^sup>2\<^sup>5\<close>.
\<close>

theorem three_entity_example:
  "map Dist (fst ExampleCached) = [Binary32 10 0, Binary32 20 0, Binary32 30 0] \<and>
   map Scalar (fst ExampleCached) = [fone, fone, fone] \<and>
   ExampleAverage = Binary32 20 0 \<and>
   map DistanceBias ExampleBiased = [Binary32 2 0, fone, Binary32 11184811 (-24)] \<and>
   map BlendWeight ExampleBiased = [Binary32 2 0, fone, Binary32 11184811 (-24)] \<and>
   ExampleLowest = Binary32 11184811 (-24) \<and>
   \<bar>valof (Binary32 11184811 (-24)) - 2 / 3\<bar> \<le> 1 / 2 ^ 25 \<and>
   map BlendWeight (fst ExampleRescaled) = [Binary32 3 0, Binary32 3 (-1), fone] \<and>
   snd ExampleRescaled = Binary32 11 (-1) \<and>
   fst (snd (GetBlendWeights ExampleWorld True ExampleSubsystem)) = ExampleFinal \<and>
   map BlendWeight (fst (snd (GetBlendWeights ExampleWorld True ExampleSubsystem)))
     = [Binary32 9151209 (-24), Binary32 9151209 (-25), Binary32 12201612 (-26)] \<and>
   \<bar>valof (Binary32 9151209 (-24)) - 6 / 11\<bar> \<le> 1 / 2 ^ 25 \<and>
   \<bar>valof (Binary32 9151209 (-25)) - 3 / 11\<bar> \<le> 1 / 2 ^ 25 \<and>
   \<bar>valof (Binary32 12201612 (-26)) - 2 / 11\<bar> \<le> 1 / 2 ^ 25 \<and>
   valof (Binary32 9151209 (-24)) + valof (Binary32 9151209 (-25)) + valof (Binary32 12201612 (-26))
     = 1 + 1 / 2 ^ 25 \<and>
   valof fone = 1 \<and> valof (Binary32 2 0) = 2 \<and> valof (Binary32 3 0) = 3 \<and>
   valof (Binary32 3 (-1)) = 3 / 2 \<and> valof (Binary32 11 (-1)) = 11 / 2 \<and>
   valof (Binary32 10 0) = 10 \<and> valof (Binary32 20 0) = 20 \<and> valof (Binary32 30 0) = 30 \<and>
   snd (snd (GetBlendWeights ExampleWorld True ExampleSubsystem))"
proof -
  have stages:
    "map Dist (fst ExampleCached) = [Binary32 10 0, Binary32 20 0, Binary32 30 0]"
    "map Scalar (fst ExampleCached) = [fone, fone, fone]"
    "map DistanceBias ExampleBiased = [Binary32 2 0, fone, Binary32 11184811 (-24)]"
    "map BlendWeight ExampleBiased = [Binary32 2 0, fone, Binary32 11184811 (-24)]"
    "map BlendWeight (fst ExampleRescaled) = [Binary32 3 0, Binary32 3 (-1), fone]"
    "snd ExampleRescaled = Binary32 11 (-1)"
    "map BlendWeight ExampleFinal = [Binary32 9151209 (-24), Binary32 9151209 (-25), Binary32 12201612 (-26)]"
    by (simp_all add: ExampleCached_eq ExampleBiased_eq ExampleRescaled_eq ExampleFinal_eq)
  have vals:
    "\<bar>valof (Binary32 11184811 (-24)) - 2 / 3\<bar> \<le> 1 / 2 ^ 25"
    "\<bar>valof (Binary32 9151209 (-24)) - 6 / 11\<bar> \<le> 1 / 2 ^ 25"
    "\<bar>valof (Binary32 9151209 (-25)) - 3 / 11\<bar> \<le> 1 / 2 ^ 25"
    "\<bar>valof (Binary32 12201612 (-26)) - 2 / 11\<bar> \<le> 1 / 2 ^ 25"
    "valof (Binary32 9151209 (-24)) + valof (Binary32 9151209 (-25)) + valof (Binary32 12201612 (-26))
       = 1 + 1 / 2 ^ 25"
    "valof fone = 1" "valof (Binary32 2 0) = 2" "valof (Binary32 3 0) = 3"
    "valof (Binary32 3 (-1)) = 3 / 2" "valof (Binary32 11 (-1)) = 11 / 2"
    "valof (Binary32 10 0) = 10" "valof (Binary32 20 0) = 20" "valof (Binary32 30 0) = 30"
    by (simp_all add: Binary32_def SignedUnits_def fone_def)
  show ?thesis
    using stages vals
    by (simp only: ExampleAverage_eq ExampleLowest_eq Example_GetBlendWeights simp_thms)
qed

text \<open>
  C7, as the claim states it, fails. With scalars 1, -1 and -1 at equal distances the
  precursor weights are 1, -1 and -1, the lowest is -1, the rescaled weights are -1, 1
  and 1 with sum 1, and the first component's final weight is -1. And with scalars of
  \<open>1.75 \<sqdot> 2\<^sup>1\<^sup>2\<^sup>7\<close>, all positive, the first precursor weight overflows and the first
  final weight is NaN, which is not greater than or equal to zero.
\<close>

theorem negative_scalar_counterexample:
  "map (GetBlendScalar NegativeScalarWorld) (BlendComponents ExampleSubsystem)
     = [fone, Finite True (2 ^ 149), Finite True (2 ^ 149)] \<and>
   map BlendWeight (fst (snd (GetBlendWeights NegativeScalarWorld True ExampleSubsystem)))
     = [Finite True (2 ^ 149), fone, fone] \<and>
   valof (Finite True (2 ^ 149)) = - 1 \<and>
   \<not> fle fzero (Finite True (2 ^ 149)) \<and>
   map BlendWeight (fst (snd (GetBlendWeights HugeScalarWorld True ExampleSubsystem)))
     = [NaN, fzero, fzero] \<and>
   \<not> fle fzero NaN"
  by (simp add: NegativeScalar_weights HugeScalar_weights NegativeScalarWorld_fields
      ExampleSubsystem_fields fle_def fzero_def SignedUnits_def)

text \<open>
  C7, amended. When every registered component has a positive scalar and a positive
  distance, no record that a recomputation returns has a BlendWeight less than zero:
  the BlendWeight is greater than or equal to zero, or it is NaN.
\<close>

theorem weights_nonnegative:
  assumes "BlendTarget s = Some T" and "ObjectAlive w T"
    and "ShouldUpdateDistance w s"
    and "\<forall>c \<in> set (BlendComponents s).
           fless fzero (GetBlendScalar w c) \<and> fless fzero (Dist (CacheComponent w xy T c))"
    and "W \<in> set (fst (snd (GetBlendWeights w xy s)))"
  shows "(BlendWeight W = NaN \<or> fle fzero (BlendWeight W)) \<and> \<not> fless (BlendWeight W) fzero"
proof -
  have n: "NotNegative (BlendWeight W)"
    using assms by (rule GetBlendWeights_NotNegative)
  then have "BlendWeight W = NaN \<or> fle fzero (BlendWeight W)"
    by (rule NotNegative_fle)
  moreover from n have "\<not> fless (BlendWeight W) fzero"
    by (cases "BlendWeight W") (auto simp: fless_def fzero_def SignedUnits_def)
  ultimately show ?thesis by blast
qed

theorem weights_nonnegative_witness:
  "ShouldUpdateDistance ExampleWorld ExampleSubsystem \<and>
   hd (fst (snd (GetBlendWeights ExampleWorld True ExampleSubsystem)))
     \<in> set (fst (snd (GetBlendWeights ExampleWorld True ExampleSubsystem))) \<and>
   fle fzero (BlendWeight (hd (fst (snd (GetBlendWeights ExampleWorld True ExampleSubsystem)))))"
proof -
  have m: "hd (fst (snd (GetBlendWeights ExampleWorld True ExampleSubsystem)))
             \<in> set (fst (snd (GetBlendWeights ExampleWorld True ExampleSubsystem)))"
    by (simp add: Example_GetBlendWeights ExampleFinal_eq)
  have "BlendWeight (hd (fst (snd (GetBlendWeights ExampleWorld True ExampleSubsystem)))) = NaN \<or>
        fle fzero (BlendWeight (hd (fst (snd (GetBlendWeights ExampleWorld True ExampleSubsystem)))))"
    using weights_nonnegative [OF _ _ Example_stale Example_positive m]
    by (simp add: ExampleSubsystem_fields ExampleWorld_fields)
  moreover have "BlendWeight (hd (fst (snd (GetBlendWeights ExampleWorld True ExampleSubsystem)))) \<noteq> NaN"
    by (simp add: Example_GetBlendWeights ExampleFinal_eq Binary32_def)
  ultimately show ?thesis using m Example_stale by blast
qed

end
